theory Spec2Isabelle
  imports Main "HOL-Library.AList"
begin

section \<open>Python objects, exceptions and the log\<close>

text \<open>
  Strings are lists of \<^typ>\<open>char\<close>; a \<^typ>\<open>char\<close> stands for a Python code point below 256.
  The document that \<^verbatim>\<open>_build_xml\<close> writes is modelled a second time further down, on strings
  of any code points.
  An exception is its class together with the text that \<^verbatim>\<open>str(exc)\<close> gives. The classes are
  the ones base.py and the libraries it calls can raise, with Python's inheritance between
  them written out as the method resolution order of each class.
\<close>

datatype exc_class =
    BaseException | SystemExit | KeyboardInterrupt | Exception
  | AssertionError | AttributeError | IndexError | TypeError
  | ValueError | UnicodeError | UnicodeDecodeError
  | OSError | RequestException | HTTPError | ConnectionError

datatype exn = Exn (exc_cls: exc_class) (exc_str: string)

fun mro :: "exc_class \<Rightarrow> exc_class list" where
  "mro BaseException = [BaseException]"
| "mro SystemExit = [SystemExit, BaseException]"
| "mro KeyboardInterrupt = [KeyboardInterrupt, BaseException]"
| "mro Exception = [Exception, BaseException]"
| "mro AssertionError = [AssertionError, Exception, BaseException]"
| "mro AttributeError = [AttributeError, Exception, BaseException]"
| "mro IndexError = [IndexError, Exception, BaseException]"
| "mro TypeError = [TypeError, Exception, BaseException]"
| "mro ValueError = [ValueError, Exception, BaseException]"
| "mro UnicodeError = [UnicodeError, ValueError, Exception, BaseException]"
| "mro UnicodeDecodeError =
     [UnicodeDecodeError, UnicodeError, ValueError, Exception, BaseException]"
| "mro OSError = [OSError, Exception, BaseException]"
| "mro RequestException = [RequestException, OSError, Exception, BaseException]"
| "mro HTTPError = [HTTPError, RequestException, OSError, Exception, BaseException]"
| "mro ConnectionError = [ConnectionError, RequestException, OSError, Exception, BaseException]"

definition isinstance :: "exn \<Rightarrow> exc_class \<Rightarrow> bool" where
  "isinstance e c = List.member (mro (exc_cls e)) c"

text \<open>What a Python call hands back: \<^verbatim>\<open>None\<close> or a response object of type \<^typ>\<open>'r\<close>.\<close>

datatype 'r pyobj = PyNone | Response 'r

text \<open>How a call ends for its caller: with a returned object or with an exception.\<close>

datatype 'r outcome = Returned "'r pyobj" | Raised exn

datatype log_record = LogRecord (levelname: string) (message: string)

text \<open>
  \<^verbatim>\<open>logging.basicConfig(level=logging.INFO)\<close> lets a warning through, so
  \<^verbatim>\<open>logging.warning(msg)\<close> emits one record.
\<close>

definition logging_warning :: "string \<Rightarrow> log_record list \<Rightarrow> log_record list" where
  "logging_warning msg log = log @ [LogRecord ''WARNING'' msg]"

section \<open>ResponseHandler.handler\<close>

text \<open>
  \<^verbatim>\<open>response.raise_for_status()\<close>: on \<^verbatim>\<open>None\<close> the attribute lookup raises AttributeError,
  on a response object the object's own check \<open>rfs\<close> runs.
\<close>

fun raise_for_status :: "('r \<Rightarrow> exn option) \<Rightarrow> 'r pyobj \<Rightarrow> exn option" where
  "raise_for_status rfs PyNone =
     Some (Exn AttributeError ([CHR 0x27] @ ''NoneType'' @ [CHR 0x27]
             @ '' object has no attribute '' @ [CHR 0x27] @ ''raise_for_status'' @ [CHR 0x27]))"
| "raise_for_status rfs (Response r) = rfs r"

text \<open>
  The two \<^verbatim>\<open>except\<close> clauses in source order. An exception that neither clause matches
  leaves the wrapper.
\<close>

definition except_clauses :: "exn \<Rightarrow> log_record list \<Rightarrow> 'r outcome \<times> log_record list" where
  "except_clauses e log =
     (if isinstance e HTTPError
      then (Returned PyNone, logging_warning (exc_str e @ '' - Issue with request'') log)
      else if isinstance e Exception
      then (Returned PyNone, logging_warning (exc_str e @ '' - issue in program'') log)
      else (Raised e, log))"

text \<open>
  \<open>handler rfs func\<close> is the wrapper that the decorator returns. The wrapped function
  runs on a state \<^typ>\<open>'s\<close> (the objects it mutates and the requests it has sent); the state
  it leaves is kept also when it raises.
\<close>

definition handler ::
  "('r \<Rightarrow> exn option) \<Rightarrow> ('a \<Rightarrow> 's \<Rightarrow> (exn + 'r pyobj) \<times> 's) \<Rightarrow>
   'a \<Rightarrow> 's \<Rightarrow> log_record list \<Rightarrow> 'r outcome \<times> 's \<times> log_record list" where
  "handler rfs func args s log =
     (case func args s of
        (Inl e, s') \<Rightarrow> (case except_clauses e log of (out, log') \<Rightarrow> (out, s', log'))
      | (Inr response, s') \<Rightarrow>
          (case raise_for_status rfs response of
             Some e \<Rightarrow> (case except_clauses e log of (out, log') \<Rightarrow> (out, s', log'))
           | None \<Rightarrow> (Returned response, s', log)))"

section \<open>The requests library\<close>

text \<open>
  A call of \<^verbatim>\<open>requests.post\<close> or \<^verbatim>\<open>requests.get\<close> is recorded in a trace. What the network
  answers is a parameter \<open>net\<close>: it sees the whole trace, the current request last, and
  gives a response or raises.
\<close>

datatype http_request =
    POST (req_url: string) (req_data: string) (req_headers: "(string \<times> string) list")
  | GET (req_url: string) (req_params: "(string \<times> string) list")

definition requests_post ::
  "(http_request list \<Rightarrow> exn + 'r) \<Rightarrow> string \<Rightarrow> string \<Rightarrow> (string \<times> string) list \<Rightarrow>
   http_request list \<Rightarrow> (exn + 'r pyobj) \<times> http_request list" where
  "requests_post net u d h trace =
     (let trace' = trace @ [POST u d h]
      in (map_sum id Response (net trace'), trace'))"

definition requests_get ::
  "(http_request list \<Rightarrow> exn + 'r) \<Rightarrow> string \<Rightarrow> (string \<times> string) list \<Rightarrow>
   http_request list \<Rightarrow> (exn + 'r pyobj) \<times> http_request list" where
  "requests_get net u p trace =
     (let trace' = trace @ [GET u p]
      in (map_sum id Response (net trace'), trace'))"

text \<open>
  \<^verbatim>\<open>Response.raise_for_status\<close> of the requests library, on the fields it reads.
\<close>

record response =
  status_code :: nat
  reason :: string
  resp_url :: string

fun digits_of :: "nat \<Rightarrow> nat \<Rightarrow> string" where
  "digits_of 0 n = []"
| "digits_of (Suc k) n =
     (if n < 10 then [char_of (48 + n)]
      else digits_of k (n div 10) @ [char_of (48 + n mod 10)])"

definition str_nat :: "nat \<Rightarrow> string" where
  "str_nat n = digits_of (Suc n) n"

definition requests_raise_for_status :: "response \<Rightarrow> exn option" where
  "requests_raise_for_status r =
     (if 400 \<le> status_code r \<and> status_code r < 500
      then Some (Exn HTTPError (str_nat (status_code r) @ '' Client Error: '' @ reason r
                                 @ '' for url: '' @ resp_url r))
      else if 500 \<le> status_code r \<and> status_code r < 600
      then Some (Exn HTTPError (str_nat (status_code r) @ '' Server Error: '' @ reason r
                                 @ '' for url: '' @ resp_url r))
      else None)"

section \<open>str() of the UPS body\<close>

text \<open>
  The values the body holds: a string, or the list of tracking-number strings.
  \<^verbatim>\<open>str(dict)\<close> is the dict's repr; the repr of a string follows CPython's
  \<^verbatim>\<open>unicode_repr\<close>: double quotes only when the string has a single quote and no double
  quote, backslash escapes for the quote, the backslash, tab, newline and carriage
  return, and \<^verbatim>\<open>\xNN\<close> for the other unprintable characters.
\<close>

datatype pyval = Str string | StrList "string list"

definition hexdigit :: "nat \<Rightarrow> char" where
  "hexdigit n = ''0123456789abcdef'' ! (n mod 16)"

definition hex_escape :: "char \<Rightarrow> string" where
  "hex_escape c = [CHR 0x5C, CHR ''x'', hexdigit (of_char c div 16), hexdigit (of_char c mod 16)]"

definition isprintable :: "char \<Rightarrow> bool" where
  "isprintable c =
     (let n = (of_char c :: nat)
      in (32 \<le> n \<and> n < 127) \<or> (161 \<le> n \<and> n \<noteq> 173))"

definition repr_char :: "char \<Rightarrow> char \<Rightarrow> string" where
  "repr_char q c =
     (if c = q \<or> c = CHR 0x5C then [CHR 0x5C, c]
      else if c = CHR 0x09 then [CHR 0x5C, CHR ''t'']
      else if c = CHR 0x0A then [CHR 0x5C, CHR ''n'']
      else if c = CHR 0x0D then [CHR 0x5C, CHR ''r'']
      else if isprintable c then [c]
      else hex_escape c)"

definition repr_str :: "string \<Rightarrow> string" where
  "repr_str s =
     (let q = (if List.member s (CHR 0x27) \<and> \<not> List.member s (CHR 0x22)
               then CHR 0x22 else CHR 0x27)
      in [q] @ concat (map (repr_char q) s) @ [q])"

fun join :: "string \<Rightarrow> string list \<Rightarrow> string" where
  "join sep [] = []"
| "join sep [x] = x"
| "join sep (x # y # ys) = x @ sep @ join sep (y # ys)"

fun repr :: "pyval \<Rightarrow> string" where
  "repr (Str s) = repr_str s"
| "repr (StrList xs) = ''['' @ join '', '' (map repr_str xs) @ '']''"

definition str_dict :: "(string \<times> pyval) list \<Rightarrow> string" where
  "str_dict d = ''{'' @ join '', '' (map (\<lambda>(k, v). repr_str k @ '': '' @ repr v) d) @ ''}''"

section \<open>UpsTracktor\<close>

text \<open>
  A dict is an association list with distinct keys in insertion order;
  \<^const>\<open>AList.update\<close> overwrites a key in place and appends a new one, as
  \<^verbatim>\<open>dict.update\<close> and item assignment do.
\<close>

record ups =
  ups_url :: string
  ups_body :: "(string \<times> pyval) list"
  ups_headers :: "(string \<times> string) list"

definition UpsTracktor_init :: ups where
  "UpsTracktor_init =
     \<lparr> ups_url = ''https://www.ups.com/track/api/Track/GetStatus?loc=en_US'',
       ups_body = [(''Locale'', Str ''en_US''), (''Requester'', Str ''wt/trackdetails'')],
       ups_headers = [(''accept'', ''application/json, text/plain, */*''),
                      (''content-type'', ''application/json'')] \<rparr>"

definition ups_make_request ::
  "(http_request list \<Rightarrow> exn + 'r) \<Rightarrow> string list \<Rightarrow> ups \<times> http_request list \<Rightarrow>
   (exn + 'r pyobj) \<times> ups \<times> http_request list" where
  "ups_make_request net tracking_numbers st =
     (case st of (self, trace) \<Rightarrow>
        (let self' = self\<lparr>ups_body :=
                        AList.update ''TrackingNumber'' (StrList tracking_numbers) (ups_body self)\<rparr>
         in case requests_post net (ups_url self') (str_dict (ups_body self'))
                   (ups_headers self') trace of
              (res, trace') \<Rightarrow> (res, self', trace')))"

section \<open>xml.etree.ElementTree: TreeBuilder and the serializer\<close>

text \<open>
  An element has a tag, its attributes in insertion order and its children; the builder of
  base.py never sets text or tail. The builder keeps the stack of open elements (head =
  innermost) and the root. Python appends an element to its parent when it is started and
  goes on filling the same object; here a closed element is put under its parent when it
  is ended, which gives the same tree once every element is closed, and
  \<^verbatim>\<open>close\<close> refuses anything else.
\<close>

datatype element = Element (tag: string) (attrib: "(string \<times> string) list") (children: "element list")

record treebuilder =
  tb_elem :: "element list"
  tb_root :: "element option"

definition TreeBuilder :: treebuilder where
  "TreeBuilder = \<lparr> tb_elem = [], tb_root = None \<rparr>"

definition tb_start :: "string \<Rightarrow> (string \<times> string) list \<Rightarrow> treebuilder \<Rightarrow> treebuilder" where
  "tb_start t attrs b = b\<lparr>tb_elem := Element t attrs [] # tb_elem b\<rparr>"

definition tb_end :: "string \<Rightarrow> treebuilder \<Rightarrow> exn + treebuilder" where
  "tb_end t b =
     (case tb_elem b of
        [] \<Rightarrow> Inl (Exn IndexError ''pop from empty list'')
      | e # stack \<Rightarrow>
          if tag e \<noteq> t
          then Inl (Exn AssertionError
                 (''end tag mismatch (expected '' @ tag e @ '', got '' @ t @ '')''))
          else (case stack of
                  [] \<Rightarrow> Inr (b\<lparr>tb_elem := [],
                              tb_root := (case tb_root b of None \<Rightarrow> Some e | Some r \<Rightarrow> Some r)\<rparr>)
                | Element pt pa pc # rest \<Rightarrow>
                    Inr (b\<lparr>tb_elem := Element pt pa (pc @ [e]) # rest\<rparr>)))"

definition tb_close :: "treebuilder \<Rightarrow> exn + element" where
  "tb_close b =
     (if tb_elem b \<noteq> [] then Inl (Exn AssertionError ''missing end tags'')
      else case tb_root b of
             None \<Rightarrow> Inl (Exn AssertionError ''missing toplevel element'')
           | Some r \<Rightarrow> Inr r)"

text \<open>
  \<^verbatim>\<open>str.replace\<close> of a one-character pattern, and \<^verbatim>\<open>_escape_attrib\<close> as the library writes
  it: seven replacements one after the other, the ampersand first.
\<close>

definition replace :: "char \<Rightarrow> string \<Rightarrow> string \<Rightarrow> string" where
  "replace old new text = concat (map (\<lambda>c. if c = old then new else [c]) text)"

definition escape_attrib :: "string \<Rightarrow> string" where
  "escape_attrib text =
     replace (CHR 0x09) ''&#09;''
       (replace (CHR 0x0A) ''&#10;''
         (replace (CHR 0x0D) ''&#13;''
           (replace (CHR 0x22) ''&quot;''
             (replace (CHR ''>'') ''&gt;''
               (replace (CHR ''<'') ''&lt;''
                 (replace (CHR ''&'') ''&amp;'' text))))))"

text \<open>
  \<^verbatim>\<open>_serialize_xml\<close> for elements without text, tail or namespaces (the tags and
  attribute names of base.py have no namespace, so each is its own qualified name).
\<close>

fun serialize_xml :: "bool \<Rightarrow> element \<Rightarrow> string" where
  "serialize_xml short_empty_elements (Element t items kids) =
     ''<'' @ t
     @ concat (map (\<lambda>(k, v). '' '' @ k @ ''='' @ [CHR 0x22] @ escape_attrib v @ [CHR 0x22]) items)
     @ (if kids \<noteq> [] \<or> \<not> short_empty_elements
        then ''>'' @ concat (map (serialize_xml short_empty_elements) kids) @ ''</'' @ t @ ''>''
        else '' />'')"

text \<open>
  \<^verbatim>\<open>ElementTree.write(buffer, xml_declaration=True, encoding="UTF-8",
  short_empty_elements=False)\<close>: the declaration, a newline, the serialized root.
\<close>

definition ElementTree_write :: "element \<Rightarrow> string" where
  "ElementTree_write root =
     ''<?xml version='' @ [CHR 0x27] @ ''1.0'' @ [CHR 0x27] @ '' encoding='' @ [CHR 0x27]
     @ ''UTF-8'' @ [CHR 0x27] @ ''?>'' @ [CHR 0x0A] @ serialize_xml False root"

text \<open>
  The buffer holds the text encoded as UTF-8 (bytes as numbers below 256), and
  \<^verbatim>\<open>decode('utf-8')\<close> reads it back, raising UnicodeDecodeError on malformed input.
  A code point below 128 is one byte, one from 128 to 255 is two; the strings of this
  section have no others. The writer and the decoder on all code points, with the
  character references the writer falls back to, are \<open>utf8_encode_u\<close> and
  \<open>utf8_decode_u\<close> further down.
\<close>

definition utf8_encode_char :: "char \<Rightarrow> nat list" where
  "utf8_encode_char c =
     (let n = (of_char c :: nat)
      in if n < 128 then [n] else [192 + n div 64, 128 + n mod 64])"

definition utf8_encode :: "string \<Rightarrow> nat list" where
  "utf8_encode s = concat (map utf8_encode_char s)"

fun utf8_decode :: "nat list \<Rightarrow> string option" where
  "utf8_decode [] = Some []"
| "utf8_decode [b] = (if b < 128 then Some [char_of b] else None)"
| "utf8_decode (b # b2 # bs) =
     (if b < 128 then map_option (\<lambda>s. char_of b # s) (utf8_decode (b2 # bs))
      else if (b = 194 \<or> b = 195) \<and> 128 \<le> b2 \<and> b2 < 192
      then map_option (\<lambda>s. char_of ((b - 192) * 64 + (b2 - 128)) # s) (utf8_decode bs)
      else None)"

section \<open>UspsTracktor\<close>

text \<open>
  \<^verbatim>\<open>tracking_numbers\<close> is an attribute that only \<^verbatim>\<open>_make_request\<close> sets: until then it
  is absent (\<open>None\<close>) and reading it raises AttributeError.
\<close>

record usps =
  usps_user_id :: string
  usps_url :: string
  usps_params :: "(string \<times> string) list"
  usps_tracking_numbers :: "string list option"

definition UspsTracktor_init :: "string \<Rightarrow> usps" where
  "UspsTracktor_init user_id =
     \<lparr> usps_user_id = user_id,
       usps_url = ''http://production.shippingapis.com/ShippingAPI.dll'',
       usps_params = [(''API'', ''TrackV2'')],
       usps_tracking_numbers = None \<rparr>"

text \<open>The loop of \<^verbatim>\<open>_build_xml\<close>: one started and ended TrackID node per tracking number.\<close>

fun add_tracking_numbers :: "string list \<Rightarrow> treebuilder \<Rightarrow> exn + treebuilder" where
  "add_tracking_numbers [] builder = Inr builder"
| "add_tracking_numbers (tracking_number # rest) builder =
     (case tb_end ''TrackID'' (tb_start ''TrackID'' [(''ID'', tracking_number)] builder) of
        Inl e \<Rightarrow> Inl e
      | Inr builder' \<Rightarrow> add_tracking_numbers rest builder')"

definition build_xml :: "usps \<Rightarrow> exn + string" where
  "build_xml self =
     (let builder = tb_start ''TrackRequest'' [(''USERID'', usps_user_id self)] TreeBuilder
      in case usps_tracking_numbers self of
           None \<Rightarrow> Inl (Exn AttributeError
                     ([CHR 0x27] @ ''UspsTracktor'' @ [CHR 0x27] @ '' object has no attribute ''
                      @ [CHR 0x27] @ ''tracking_numbers'' @ [CHR 0x27]))
         | Some tracking_numbers \<Rightarrow>
             (case add_tracking_numbers tracking_numbers builder of
                Inl e \<Rightarrow> Inl e
              | Inr builder1 \<Rightarrow>
                  (case tb_end ''TrackRequest'' builder1 of
                     Inl e \<Rightarrow> Inl e
                   | Inr builder2 \<Rightarrow>
                       (case tb_close builder2 of
                          Inl e \<Rightarrow> Inl e
                        | Inr root \<Rightarrow>
                            (case utf8_decode (utf8_encode (ElementTree_write root)) of
                               None \<Rightarrow> Inl (Exn UnicodeDecodeError ''invalid utf-8'')
                             | Some text \<Rightarrow> Inr text)))))"

definition usps_make_request ::
  "(http_request list \<Rightarrow> exn + 'r) \<Rightarrow> string list \<Rightarrow> usps \<times> http_request list \<Rightarrow>
   (exn + 'r pyobj) \<times> usps \<times> http_request list" where
  "usps_make_request net tracking_numbers st =
     (case st of (self, trace) \<Rightarrow>
        (let self1 = self\<lparr>usps_tracking_numbers := Some tracking_numbers\<rparr>
         in case build_xml self1 of
              Inl e \<Rightarrow> (Inl e, self1, trace)
            | Inr xml \<Rightarrow>
                (let self2 = self1\<lparr>usps_params := AList.update ''XML'' xml (usps_params self1)\<rparr>
                 in case requests_get net (usps_url self2) (usps_params self2) trace of
                      (res, trace') \<Rightarrow> (res, self2, trace'))))"

section \<open>Tracktor\<close>

text \<open>
  An instance is of one of the three classes. \<^verbatim>\<open>_make_request\<close> dispatches on the class;
  the body of the abstract method is \<^verbatim>\<open>pass\<close>, which returns \<^verbatim>\<open>None\<close>.
\<close>

datatype tracktor = Bare | Ups ups | Usps usps

definition make_request ::
  "(http_request list \<Rightarrow> exn + 'r) \<Rightarrow> string list \<Rightarrow> tracktor \<times> http_request list \<Rightarrow>
   (exn + 'r pyobj) \<times> tracktor \<times> http_request list" where
  "make_request net tracking_numbers st =
     (case st of (self, trace) \<Rightarrow>
        (case self of
           Bare \<Rightarrow> (Inr PyNone, Bare, trace)
         | Ups u \<Rightarrow>
             (case ups_make_request net tracking_numbers (u, trace) of
                (res, u', trace') \<Rightarrow> (res, Ups u', trace'))
         | Usps u \<Rightarrow>
             (case usps_make_request net tracking_numbers (u, trace) of
                (res, u', trace') \<Rightarrow> (res, Usps u', trace'))))"

text \<open>
  \<^verbatim>\<open>track\<close> is the wrapper around the function that forwards to \<^verbatim>\<open>_make_request\<close>. It
  takes the response check \<open>rfs\<close>, the network, the tracking numbers, the instance with
  the trace of requests, and the log.
\<close>

definition track ::
  "('r \<Rightarrow> exn option) \<Rightarrow> (http_request list \<Rightarrow> exn + 'r) \<Rightarrow> string list \<Rightarrow>
   tracktor \<times> http_request list \<Rightarrow> log_record list \<Rightarrow>
   'r outcome \<times> (tracktor \<times> http_request list) \<times> log_record list" where
  "track rfs net = handler rfs (make_request net)"

section \<open>Abstract classes\<close>

text \<open>
  The classes of base.py: each with the names its body defines, whether the defined
  function carries \<^verbatim>\<open>__isabstractmethod__\<close>, and its linearization. \<^verbatim>\<open>track\<close> is the
  wrapper returned by the decorator, which is not abstract.
\<close>

datatype pycls = Tracktor_cls | UpsTracktor_cls | UspsTracktor_cls

fun namespace :: "pycls \<Rightarrow> (string \<times> bool) list" where
  "namespace Tracktor_cls = [(''_make_request'', True), (''track'', False)]"
| "namespace UpsTracktor_cls = [(''__init__'', False), (''_make_request'', False)]"
| "namespace UspsTracktor_cls =
     [(''__init__'', False), (''_build_xml'', False), (''_make_request'', False)]"

fun cls_mro :: "pycls \<Rightarrow> pycls list" where
  "cls_mro Tracktor_cls = [Tracktor_cls]"
| "cls_mro UpsTracktor_cls = [UpsTracktor_cls, Tracktor_cls]"
| "cls_mro UspsTracktor_cls = [UspsTracktor_cls, Tracktor_cls]"

text \<open>\<^verbatim>\<open>getattr(cls, name, None)\<close> and its \<^verbatim>\<open>__isabstractmethod__\<close>, false when absent.\<close>

fun getattr_isabstract :: "pycls list \<Rightarrow> string \<Rightarrow> bool" where
  "getattr_isabstract [] name = False"
| "getattr_isabstract (c # cs) name =
     (case map_of (namespace c) name of
        Some b \<Rightarrow> b
      | None \<Rightarrow> getattr_isabstract cs name)"

text \<open>
  \<^verbatim>\<open>ABCMeta.__new__\<close>: the abstract names of the class body, and the abstract names of
  the bases that still resolve to an abstract function in the new class.
\<close>

definition abc_new :: "pycls \<Rightarrow> string list \<Rightarrow> string list" where
  "abc_new c inherited =
     map fst (filter snd (namespace c))
     @ filter (getattr_isabstract (cls_mro c)) inherited"

definition Tracktor_abstractmethods :: "string list" where
  "Tracktor_abstractmethods = abc_new Tracktor_cls []"

fun abstractmethods :: "pycls \<Rightarrow> string list" where
  "abstractmethods Tracktor_cls = Tracktor_abstractmethods"
| "abstractmethods UpsTracktor_cls = abc_new UpsTracktor_cls Tracktor_abstractmethods"
| "abstractmethods UspsTracktor_cls = abc_new UspsTracktor_cls Tracktor_abstractmethods"

text \<open>
  Calling a class: \<^verbatim>\<open>object.__new__\<close> raises TypeError when the class still has abstract
  methods; then \<^verbatim>\<open>__init__\<close> runs on the positional arguments (strings here), and a
  wrong number of them is a TypeError too.
\<close>

definition instantiate :: "pycls \<Rightarrow> string list \<Rightarrow> exn + tracktor" where
  "instantiate c args =
     (if abstractmethods c \<noteq> []
      then Inl (Exn TypeError (''Can't instantiate abstract class with abstract methods ''
                                @ join '', '' (abstractmethods c)))
      else (case c of
              Tracktor_cls \<Rightarrow>
                (if args = [] then Inr Bare
                 else Inl (Exn TypeError ''Tracktor() takes no arguments''))
            | UpsTracktor_cls \<Rightarrow>
                (if args = [] then Inr (Ups UpsTracktor_init)
                 else Inl (Exn TypeError ''__init__() takes 1 positional argument''))
            | UspsTracktor_cls \<Rightarrow>
                (case args of
                   [user_id] \<Rightarrow> Inr (Usps (UspsTracktor_init user_id))
                 | _ \<Rightarrow> Inl (Exn TypeError ''__init__() takes 2 positional arguments''))))"

section \<open>_build_xml on every Python string\<close>

text \<open>
  The sections above carry strings as lists of \<^typ>\<open>char\<close>, code points below 256. What
  \<^verbatim>\<open>_build_xml\<close> writes for the other code points matters for the document, so it is modelled
  here once more on strings as lists of code points (numbers up to 0x10FFFF), from the same
  source lines and library functions. The functions are those of the sections above with
  the suffix \<open>_u\<close>; on strings below 256 the two models agree.
\<close>

type_synonym pystr = "nat list"

definition ustr :: "string \<Rightarrow> pystr" where
  "ustr s = map of_char s"

datatype element_u =
  Element_u (tag_u: pystr) (attrib_u: "(pystr \<times> pystr) list") (children_u: "element_u list")

record treebuilder_u =
  tb_elem_u :: "element_u list"
  tb_root_u :: "element_u option"

definition TreeBuilder_u :: treebuilder_u where
  "TreeBuilder_u = \<lparr> tb_elem_u = [], tb_root_u = None \<rparr>"

definition tb_start_u :: "pystr \<Rightarrow> (pystr \<times> pystr) list \<Rightarrow> treebuilder_u \<Rightarrow> treebuilder_u" where
  "tb_start_u t attrs b = b\<lparr>tb_elem_u := Element_u t attrs [] # tb_elem_u b\<rparr>"

definition tb_end_u :: "pystr \<Rightarrow> treebuilder_u \<Rightarrow> exn + treebuilder_u" where
  "tb_end_u t b =
     (case tb_elem_u b of
        [] \<Rightarrow> Inl (Exn IndexError ''pop from empty list'')
      | e # stack \<Rightarrow>
          if tag_u e \<noteq> t
          then Inl (Exn AssertionError ''end tag mismatch'')
          else (case stack of
                  [] \<Rightarrow> Inr (b\<lparr>tb_elem_u := [],
                              tb_root_u := (case tb_root_u b of None \<Rightarrow> Some e | Some r \<Rightarrow> Some r)\<rparr>)
                | Element_u pt pa pc # rest \<Rightarrow>
                    Inr (b\<lparr>tb_elem_u := Element_u pt pa (pc @ [e]) # rest\<rparr>)))"

definition tb_close_u :: "treebuilder_u \<Rightarrow> exn + element_u" where
  "tb_close_u b =
     (if tb_elem_u b \<noteq> [] then Inl (Exn AssertionError ''missing end tags'')
      else case tb_root_u b of
             None \<Rightarrow> Inl (Exn AssertionError ''missing toplevel element'')
           | Some r \<Rightarrow> Inr r)"

definition replace_u :: "nat \<Rightarrow> pystr \<Rightarrow> pystr \<Rightarrow> pystr" where
  "replace_u old new text = concat (map (\<lambda>c. if c = old then new else [c]) text)"

definition escape_attrib_u :: "pystr \<Rightarrow> pystr" where
  "escape_attrib_u text =
     replace_u 0x09 (ustr ''&#09;'')
       (replace_u 0x0A (ustr ''&#10;'')
         (replace_u 0x0D (ustr ''&#13;'')
           (replace_u 0x22 (ustr ''&quot;'')
             (replace_u 0x3E (ustr ''&gt;'')
               (replace_u 0x3C (ustr ''&lt;'')
                 (replace_u 0x26 (ustr ''&amp;'') text))))))"

fun serialize_xml_u :: "bool \<Rightarrow> element_u \<Rightarrow> pystr" where
  "serialize_xml_u short_empty_elements (Element_u t items kids) =
     ustr ''<'' @ t
     @ concat (map (\<lambda>(k, v). ustr '' '' @ k @ ustr ''='' @ [0x22] @ escape_attrib_u v @ [0x22]) items)
     @ (if kids \<noteq> [] \<or> \<not> short_empty_elements
        then ustr ''>'' @ concat (map (serialize_xml_u short_empty_elements) kids)
             @ ustr ''</'' @ t @ ustr ''>''
        else ustr '' />'')"

definition ElementTree_write_u :: "element_u \<Rightarrow> pystr" where
  "ElementTree_write_u root =
     ustr (''<?xml version='' @ [CHR 0x27] @ ''1.0'' @ [CHR 0x27] @ '' encoding='' @ [CHR 0x27]
           @ ''UTF-8'' @ [CHR 0x27] @ ''?>'')
     @ [0x0A] @ serialize_xml_u False root"

text \<open>
  The writer that \<^verbatim>\<open>ElementTree.write\<close> opens on the buffer encodes to UTF-8 with
  \<^verbatim>\<open>errors="xmlcharrefreplace"\<close>: a code point is one to four bytes, and a surrogate, which
  UTF-8 cannot encode, is written as a decimal character reference. \<^verbatim>\<open>decode('utf-8')\<close> is
  the strict decoder: it refuses overlong forms, surrogates and values above 0x10FFFF.
\<close>

definition utf8_encode_cp :: "nat \<Rightarrow> nat list" where
  "utf8_encode_cp n =
     (if n < 0x80 then [n]
      else if n < 0x800 then [0xC0 + n div 64, 0x80 + n mod 64]
      else if 0xD800 \<le> n \<and> n \<le> 0xDFFF then ustr (''&#'' @ str_nat n @ '';'')
      else if n < 0x10000
      then [0xE0 + n div 4096, 0x80 + n div 64 mod 64, 0x80 + n mod 64]
      else [0xF0 + n div 262144, 0x80 + n div 4096 mod 64, 0x80 + n div 64 mod 64,
            0x80 + n mod 64])"

definition utf8_encode_u :: "pystr \<Rightarrow> nat list" where
  "utf8_encode_u s = concat (map utf8_encode_cp s)"

definition is_continuation :: "nat \<Rightarrow> bool" where
  "is_continuation b = (0x80 \<le> b \<and> b < 0xC0)"

text \<open>The code points that UTF-8 encodes: up to 0x10FFFF and not a surrogate.\<close>

definition encodable :: "nat \<Rightarrow> bool" where
  "encodable n = (n \<le> 0x10FFFF \<and> \<not> (0xD800 \<le> n \<and> n \<le> 0xDFFF))"

fun utf8_decode_from :: "(nat \<times> nat \<times> nat) option \<Rightarrow> nat list \<Rightarrow> pystr option" where
  "utf8_decode_from None [] = Some []"
| "utf8_decode_from (Some pending) [] = None"
| "utf8_decode_from None (b # bs) =
     (if b < 0x80 then map_option (\<lambda>s. b # s) (utf8_decode_from None bs)
      else if 0xC0 \<le> b \<and> b < 0xE0 then utf8_decode_from (Some (1, b - 0xC0, 0x80)) bs
      else if 0xE0 \<le> b \<and> b < 0xF0 then utf8_decode_from (Some (2, b - 0xE0, 0x800)) bs
      else if 0xF0 \<le> b \<and> b < 0xF8 then utf8_decode_from (Some (3, b - 0xF0, 0x10000)) bs
      else None)"
| "utf8_decode_from (Some (k, acc, lowest)) (b # bs) =
     (if \<not> is_continuation b then None
      else (let n = acc * 64 + (b - 0x80)
            in if k \<noteq> 1 then utf8_decode_from (Some (k - 1, n, lowest)) bs
               else if lowest \<le> n \<and> n \<le> 0x10FFFF \<and> \<not> (0xD800 \<le> n \<and> n \<le> 0xDFFF)
               then map_option (\<lambda>s. n # s) (utf8_decode_from None bs)
               else None))"

definition utf8_decode_u :: "nat list \<Rightarrow> pystr option" where
  "utf8_decode_u bs = utf8_decode_from None bs"

fun add_tracking_numbers_u :: "pystr list \<Rightarrow> treebuilder_u \<Rightarrow> exn + treebuilder_u" where
  "add_tracking_numbers_u [] builder = Inr builder"
| "add_tracking_numbers_u (tracking_number # rest) builder =
     (case tb_end_u (ustr ''TrackID'')
             (tb_start_u (ustr ''TrackID'') [(ustr ''ID'', tracking_number)] builder) of
        Inl e \<Rightarrow> Inl e
      | Inr builder' \<Rightarrow> add_tracking_numbers_u rest builder')"

text \<open>
  \<^verbatim>\<open>_build_xml\<close> as a function of the two attributes it reads: \<^verbatim>\<open>self.user_id\<close> and
  \<^verbatim>\<open>self.tracking_numbers\<close> (\<open>None\<close> while the attribute is not set).
\<close>

definition build_xml_u :: "pystr \<Rightarrow> pystr list option \<Rightarrow> exn + pystr" where
  "build_xml_u user_id tracking_numbers_attr =
     (let builder = tb_start_u (ustr ''TrackRequest'') [(ustr ''USERID'', user_id)] TreeBuilder_u
      in case tracking_numbers_attr of
           None \<Rightarrow> Inl (Exn AttributeError
                     ([CHR 0x27] @ ''UspsTracktor'' @ [CHR 0x27] @ '' object has no attribute ''
                      @ [CHR 0x27] @ ''tracking_numbers'' @ [CHR 0x27]))
         | Some tracking_numbers \<Rightarrow>
             (case add_tracking_numbers_u tracking_numbers builder of
                Inl e \<Rightarrow> Inl e
              | Inr builder1 \<Rightarrow>
                  (case tb_end_u (ustr ''TrackRequest'') builder1 of
                     Inl e \<Rightarrow> Inl e
                   | Inr builder2 \<Rightarrow>
                       (case tb_close_u builder2 of
                          Inl e \<Rightarrow> Inl e
                        | Inr root \<Rightarrow>
                            (case utf8_decode_u (utf8_encode_u (ElementTree_write_u root)) of
                               None \<Rightarrow> Inl (Exn UnicodeDecodeError ''invalid utf-8'')
                             | Some text \<Rightarrow> Inr text)))))"

section \<open>Well-formed XML documents\<close>

text \<open>
  What the generated text is checked against: a reader for the part of XML 1.0 that has
  an XML declaration and elements with attributes (no character data, comments or
  processing instructions between the tags). It follows the productions of the
  recommendation: every character of the document is a \<^verbatim>\<open>Char\<close>; names are \<^verbatim>\<open>Name\<close>s;
  an attribute value is quoted, has no raw \<^verbatim>\<open><\<close>, has its references decoded and its
  literal white space normalized to spaces; a character reference names a \<^verbatim>\<open>Char\<close>;
  attribute names of one tag are distinct; the end tag repeats the name of the start
  tag. A document that the reader accepts is well-formed, and the reader returns the
  declared encoding and the tree it read. The tree records whether an element was written
  as a start-tag and end-tag pair or as an empty-element tag.
\<close>

datatype xml_tree =
    StartEnd pystr "(pystr \<times> pystr) list" "xml_tree list"
  | EmptyElemTag pystr "(pystr \<times> pystr) list"

definition is_xml_char :: "nat \<Rightarrow> bool" where
  "is_xml_char n =
     (n = 0x9 \<or> n = 0xA \<or> n = 0xD \<or> (0x20 \<le> n \<and> n \<le> 0xD7FF)
      \<or> (0xE000 \<le> n \<and> n \<le> 0xFFFD) \<or> (0x10000 \<le> n \<and> n \<le> 0x10FFFF))"

definition is_space :: "nat \<Rightarrow> bool" where
  "is_space n = (n = 0x20 \<or> n = 0x9 \<or> n = 0xD \<or> n = 0xA)"

definition is_name_start :: "nat \<Rightarrow> bool" where
  "is_name_start n =
     (n = 0x3A \<or> (0x41 \<le> n \<and> n \<le> 0x5A) \<or> n = 0x5F \<or> (0x61 \<le> n \<and> n \<le> 0x7A)
      \<or> (0xC0 \<le> n \<and> n \<le> 0xD6) \<or> (0xD8 \<le> n \<and> n \<le> 0xF6) \<or> (0xF8 \<le> n \<and> n \<le> 0x2FF)
      \<or> (0x370 \<le> n \<and> n \<le> 0x37D) \<or> (0x37F \<le> n \<and> n \<le> 0x1FFF)
      \<or> (0x200C \<le> n \<and> n \<le> 0x200D) \<or> (0x2070 \<le> n \<and> n \<le> 0x218F)
      \<or> (0x2C00 \<le> n \<and> n \<le> 0x2FEF) \<or> (0x3001 \<le> n \<and> n \<le> 0xD7FF)
      \<or> (0xF900 \<le> n \<and> n \<le> 0xFDCF) \<or> (0xFDF0 \<le> n \<and> n \<le> 0xFFFD)
      \<or> (0x10000 \<le> n \<and> n \<le> 0xEFFFF))"

definition is_name_char :: "nat \<Rightarrow> bool" where
  "is_name_char n =
     (is_name_start n \<or> n = 0x2D \<or> n = 0x2E \<or> (0x30 \<le> n \<and> n \<le> 0x39) \<or> n = 0xB7
      \<or> (0x300 \<le> n \<and> n \<le> 0x36F) \<or> (0x203F \<le> n \<and> n \<le> 0x2040))"

definition parse_name :: "pystr \<Rightarrow> (pystr \<times> pystr) option" where
  "parse_name s =
     (case s of
        [] \<Rightarrow> None
      | c # cs \<Rightarrow>
          if is_name_start c
          then Some (c # takeWhile is_name_char cs, dropWhile is_name_char cs)
          else None)"

definition digit_val :: "nat \<Rightarrow> nat option" where
  "digit_val n = (if 0x30 \<le> n \<and> n \<le> 0x39 then Some (n - 0x30) else None)"

definition hex_val :: "nat \<Rightarrow> nat option" where
  "hex_val n =
     (if 0x30 \<le> n \<and> n \<le> 0x39 then Some (n - 0x30)
      else if 0x41 \<le> n \<and> n \<le> 0x46 then Some (n - 0x37)
      else if 0x61 \<le> n \<and> n \<le> 0x66 then Some (n - 0x57)
      else None)"

fun number :: "nat \<Rightarrow> (nat \<Rightarrow> nat option) \<Rightarrow> nat \<Rightarrow> pystr \<Rightarrow> nat option" where
  "number b dv acc [] = Some acc"
| "number b dv acc (c # cs) =
     (case dv c of None \<Rightarrow> None | Some d \<Rightarrow> number b dv (acc * b + d) cs)"

definition char_ref :: "nat \<Rightarrow> nat option" where
  "char_ref n = (if is_xml_char n then Some n else None)"

definition decode_ref :: "pystr \<Rightarrow> nat option" where
  "decode_ref nm =
     (if nm = ustr ''amp'' then Some 0x26
      else if nm = ustr ''lt'' then Some 0x3C
      else if nm = ustr ''gt'' then Some 0x3E
      else if nm = ustr ''quot'' then Some 0x22
      else if nm = ustr ''apos'' then Some 0x27
      else if take 2 nm = ustr ''#x'' \<and> drop 2 nm \<noteq> []
      then Option.bind (number 16 hex_val 0 (drop 2 nm)) char_ref
      else if take 1 nm = ustr ''#'' \<and> drop 1 nm \<noteq> []
      then Option.bind (number 10 digit_val 0 (drop 1 nm)) char_ref
      else None)"

text \<open>
  The value of an attribute after its opening quote \<open>q\<close>, up to the closing quote. The
  second argument is the reference being read (reversed), if any.
\<close>

fun att_value :: "nat \<Rightarrow> pystr option \<Rightarrow> pystr \<Rightarrow> (pystr \<times> pystr) option" where
  "att_value q pending [] = None"
| "att_value q None (c # cs) =
     (if c = q then Some ([], cs)
      else if c = 0x3C \<or> \<not> is_xml_char c then None
      else if c = 0x26 then att_value q (Some []) cs
      else (case att_value q None cs of
              None \<Rightarrow> None
            | Some (v, rest) \<Rightarrow> Some ((if is_space c then 0x20 else c) # v, rest)))"
| "att_value q (Some nm) (c # cs) =
     (if c = 0x3B
      then (case decode_ref (rev nm) of
              None \<Rightarrow> None
            | Some d \<Rightarrow>
                (case att_value q None cs of
                   None \<Rightarrow> None
                 | Some (v, rest) \<Rightarrow> Some (d # v, rest)))
      else if is_name_char c \<or> c = 0x23 then att_value q (Some (c # nm)) cs
      else None)"

text \<open>
  The attributes of a tag, up to the character that ends it. The first argument bounds
  the number of attributes read.
\<close>

fun attributes :: "nat \<Rightarrow> pystr \<Rightarrow> ((pystr \<times> pystr) list \<times> pystr) option" where
  "attributes 0 s = None"
| "attributes (Suc n) s =
     (let s1 = dropWhile is_space s
      in if s1 = [] then None
         else if hd s1 = 0x3E \<or> hd s1 = 0x2F \<or> hd s1 = 0x3F then Some ([], s1)
         else if length s1 = length s then None
         else (case parse_name s1 of
                 None \<Rightarrow> None
               | Some (k, s2) \<Rightarrow>
                   (case dropWhile is_space s2 of
                      [] \<Rightarrow> None
                    | e # s3 \<Rightarrow>
                        if e \<noteq> 0x3D then None
                        else (case dropWhile is_space s3 of
                                [] \<Rightarrow> None
                              | q # s4 \<Rightarrow>
                                  if q \<noteq> 0x22 \<and> q \<noteq> 0x27 then None
                                  else (case att_value q None s4 of
                                          None \<Rightarrow> None
                                        | Some (v, s5) \<Rightarrow>
                                            (case attributes n s5 of
                                               None \<Rightarrow> None
                                             | Some (kvs, s6) \<Rightarrow>
                                                 if List.member (map fst kvs) k then None
                                                 else Some ((k, v) # kvs, s6)))))))"

text \<open>
  An element, and the content of an element up to and including the \<^verbatim>\<open></\<close> of its end
  tag. The first argument bounds the nesting depth and the number of siblings.
\<close>

fun read_element :: "nat \<Rightarrow> pystr \<Rightarrow> (xml_tree \<times> pystr) option"
  and read_content :: "nat \<Rightarrow> pystr \<Rightarrow> (xml_tree list \<times> pystr) option" where
  "read_element 0 s = None"
| "read_element (Suc n) s =
     (if take 1 s \<noteq> ustr ''<'' then None
      else (case parse_name (drop 1 s) of
              None \<Rightarrow> None
            | Some (t, s2) \<Rightarrow>
                (case attributes (Suc (length s2)) s2 of
                   None \<Rightarrow> None
                 | Some (atts, s3) \<Rightarrow>
                     if take 2 s3 = ustr ''/>'' then Some (EmptyElemTag t atts, drop 2 s3)
                     else if take 1 s3 \<noteq> ustr ''>'' then None
                     else (case read_content n (drop 1 s3) of
                             None \<Rightarrow> None
                           | Some (kids, s4) \<Rightarrow>
                               (case parse_name s4 of
                                  None \<Rightarrow> None
                                | Some (t', s5) \<Rightarrow>
                                    if t' \<noteq> t \<or> take 1 (dropWhile is_space s5) \<noteq> ustr ''>''
                                    then None
                                    else Some (StartEnd t atts kids,
                                               drop 1 (dropWhile is_space s5)))))))"
| "read_content 0 s = None"
| "read_content (Suc n) s =
     (if take 2 s = ustr ''</'' then Some ([], drop 2 s)
      else (case read_element n s of
              None \<Rightarrow> None
            | Some (e, s1) \<Rightarrow>
                (case read_content n s1 of
                   None \<Rightarrow> None
                 | Some (es, s2) \<Rightarrow> Some (e # es, s2))))"

text \<open>The XML declaration with its version and encoding; gives the encoding.\<close>

definition xml_decl :: "pystr \<Rightarrow> (pystr \<times> pystr) option" where
  "xml_decl s =
     (if take 5 s \<noteq> ustr ''<?xml'' then None
      else (case attributes (Suc (length s)) (drop 5 s) of
              None \<Rightarrow> None
            | Some (atts, s1) \<Rightarrow>
                if take 2 s1 \<noteq> ustr ''?>'' then None
                else (case atts of
                        [(k1, v1), (k2, v2)] \<Rightarrow>
                          if k1 = ustr ''version'' \<and> v1 = ustr ''1.0'' \<and> k2 = ustr ''encoding''
                          then Some (v2, drop 2 s1) else None
                      | _ \<Rightarrow> None)))"

definition document :: "pystr \<Rightarrow> (pystr \<times> xml_tree) option" where
  "document s =
     (if \<not> list_all is_xml_char s then None
      else (case xml_decl s of
              None \<Rightarrow> None
            | Some (enc, s1) \<Rightarrow>
                (case read_element (length s) (dropWhile is_space s1) of
                   None \<Rightarrow> None
                 | Some (root, s2) \<Rightarrow>
                     if dropWhile is_space s2 = [] then Some (enc, root) else None)))"

section \<open>The text of the USPS document\<close>

text \<open>
  What \<^verbatim>\<open>_escape_attrib\<close> does to one code point, and the text of the document written
  out: the declaration, and start-tag and end-tag pairs for the root and for each
  tracking number. The last definitions are the tree that the builder makes and the tree a
  reader is to find in the text.
\<close>

definition escape_char :: "nat \<Rightarrow> pystr" where
  "escape_char c =
     (if c = 0x26 then ustr ''&amp;''
      else if c = 0x3C then ustr ''&lt;''
      else if c = 0x3E then ustr ''&gt;''
      else if c = 0x22 then ustr ''&quot;''
      else if c = 0x0D then ustr ''&#13;''
      else if c = 0x0A then ustr ''&#10;''
      else if c = 0x09 then ustr ''&#09;''
      else [c])"

definition xml_declaration :: pystr where
  "xml_declaration =
     ustr (''<?xml version='' @ [CHR 0x27] @ ''1.0'' @ [CHR 0x27] @ '' encoding='' @ [CHR 0x27]
           @ ''UTF-8'' @ [CHR 0x27] @ ''?>'')"

definition track_id_text :: "pystr \<Rightarrow> pystr" where
  "track_id_text t =
     ustr ''<TrackID ID='' @ [0x22] @ escape_attrib_u t @ [0x22] @ ustr ''></TrackID>''"

definition track_request_text :: "pystr \<Rightarrow> pystr list \<Rightarrow> pystr" where
  "track_request_text uid tns =
     ustr ''<TrackRequest USERID='' @ [0x22] @ escape_attrib_u uid @ [0x22] @ ustr ''>''
     @ concat (map track_id_text tns) @ ustr ''</TrackRequest>''"

definition track_id_u :: "pystr \<Rightarrow> element_u" where
  "track_id_u t = Element_u (ustr ''TrackID'') [(ustr ''ID'', t)] []"

definition track_request_u :: "pystr \<Rightarrow> pystr list \<Rightarrow> element_u" where
  "track_request_u uid tns =
     Element_u (ustr ''TrackRequest'') [(ustr ''USERID'', uid)] (map track_id_u tns)"

definition track_request_tree :: "pystr \<Rightarrow> pystr list \<Rightarrow> xml_tree" where
  "track_request_tree uid tns =
     StartEnd (ustr ''TrackRequest'') [(ustr ''USERID'', uid)]
       (map (\<lambda>t. StartEnd (ustr ''TrackID'') [(ustr ''ID'', t)] []) tns)"

section \<open>Sample networks and responses\<close>

text \<open>Fixed responses and networks on which the results below are evaluated.\<close>

definition ok_response :: response where
  "ok_response = \<lparr> status_code = 200, reason = ''OK'', resp_url = ''https://www.ups.com/'' \<rparr>"

definition error_response :: response where
  "error_response =
     \<lparr> status_code = 500, reason = ''Internal Server Error'', resp_url = ''https://www.ups.com/'' \<rparr>"

definition net_ok :: "http_request list \<Rightarrow> exn + response" where
  "net_ok trace = Inr ok_response"

definition net_500 :: "http_request list \<Rightarrow> exn + response" where
  "net_500 trace = Inr error_response"

definition net_down :: "http_request list \<Rightarrow> exn + response" where
  "net_down trace = Inl (Exn ConnectionError ''Connection refused'')"

definition net_interrupted :: "http_request list \<Rightarrow> exn + response" where
  "net_interrupted trace = Inl (Exn KeyboardInterrupt [])"

definition net_exit :: "http_request list \<Rightarrow> exn + response" where
  "net_exit trace = Inl (Exn SystemExit ''1'')"

section \<open>The tree that the builder of base.py produces\<close>

definition track_id :: "string \<Rightarrow> element" where
  "track_id t = Element ''TrackID'' [(''ID'', t)] []"

definition track_request :: "string \<Rightarrow> string list \<Rightarrow> element" where
  "track_request uid tns = Element ''TrackRequest'' [(''USERID'', uid)] (map track_id tns)"

section \<open>Sequences of requests on one instance\<close>

text \<open>
  A sequence of \<^verbatim>\<open>_make_request\<close> calls on one instance, one list of tracking numbers
  per call; what each call returns or raises is dropped. The two predicates describe the
  instances such a sequence reaches from a newly constructed one.
\<close>

fun run_requests ::
  "(http_request list \<Rightarrow> exn + 'r) \<Rightarrow> string list list \<Rightarrow> tracktor \<times> http_request list \<Rightarrow>
   tracktor \<times> http_request list" where
  "run_requests net [] st = st"
| "run_requests net (tns # rest) st = run_requests net rest (snd (make_request net tns st))"

definition ups_configured :: "ups \<Rightarrow> bool" where
  "ups_configured u =
     (ups_url u = ups_url UpsTracktor_init \<and> ups_headers u = ups_headers UpsTracktor_init
      \<and> take 2 (ups_body u) = ups_body UpsTracktor_init
      \<and> (drop 2 (ups_body u) = [] \<or> map fst (drop 2 (ups_body u)) = [''TrackingNumber'']))"

definition usps_configured :: "string \<Rightarrow> usps \<Rightarrow> bool" where
  "usps_configured uid u =
     (usps_user_id u = uid \<and> usps_url u = usps_url (UspsTracktor_init uid)
      \<and> take 1 (usps_params u) = [(''API'', ''TrackV2'')]
      \<and> (drop 1 (usps_params u) = [] \<or> map fst (drop 1 (usps_params u)) = [''XML'']))"

section \<open>Sample instances and documents\<close>

definition sample_document :: string where
  "sample_document =
     ''<?xml version='1.0' encoding='UTF-8'?>'' @ [CHR 0x0A]
     @ ''<TrackRequest USERID='' @ [CHR 0x22] @ ''123USERID'' @ [CHR 0x22] @ ''>''
     @ ''<TrackID ID='' @ [CHR 0x22] @ ''9400111202555842761005'' @ [CHR 0x22] @ ''></TrackID>''
     @ ''<TrackID ID='' @ [CHR 0x22] @ ''a&lt;b&amp;c'' @ [CHR 0x22] @ ''></TrackID>''
     @ ''</TrackRequest>''"

definition sample_ups_data :: string where
  "sample_ups_data =
     ''{'Locale': 'en_US', 'Requester': 'wt/trackdetails', 'TrackingNumber': ['1Z999AA10123456784']}''"

definition sample_user_id :: pystr where
  "sample_user_id = ustr ''123USERID''"

definition sample_tracking_numbers :: "pystr list" where
  "sample_tracking_numbers = [ustr ''9400111202555842761005'', [0x61, 0x3C, 0xE9, 0x20AC, 0x1F600]]"

definition sample_document_u :: pystr where
  "sample_document_u =
     ustr ''<?xml version='1.0' encoding='UTF-8'?>'' @ [0x0A]
     @ ustr ''<TrackRequest USERID='' @ [0x22] @ ustr ''123USERID'' @ [0x22] @ ustr ''>''
     @ ustr ''<TrackID ID='' @ [0x22] @ ustr ''9400111202555842761005'' @ [0x22]
     @ ustr ''></TrackID>''
     @ ustr ''<TrackID ID='' @ [0x22] @ ustr ''a&lt;'' @ [0xE9, 0x20AC, 0x1F600] @ [0x22]
     @ ustr ''></TrackID>''
     @ ustr ''</TrackRequest>''"

definition control_document :: pystr where
  "control_document =
     ustr ''<?xml version='1.0' encoding='UTF-8'?>'' @ [0x0A]
     @ ustr ''<TrackRequest USERID='' @ [0x22, 0x01, 0x22] @ ustr ''></TrackRequest>''"

definition noncharacter_document :: pystr where
  "noncharacter_document =
     ustr ''<?xml version='1.0' encoding='UTF-8'?>'' @ [0x0A]
     @ ustr ''<TrackRequest USERID='' @ [0x22, 0xFFFF, 0x22] @ ustr ''></TrackRequest>''"

definition surrogate_document :: pystr where
  "surrogate_document =
     ustr ''<?xml version='1.0' encoding='UTF-8'?>'' @ [0x0A]
     @ ustr ''<TrackRequest USERID='' @ [0x22] @ ustr ''&#55296;'' @ [0x22]
     @ ustr ''></TrackRequest>''"

section \<open>The wrapper: what track returns and logs\<close>

lemma str_nat_500: "str_nat 500 = ''500''"
  by code_simp

lemma error_response_check:
  "requests_raise_for_status error_response =
     Some (Exn HTTPError (''500 Server Error: Internal Server Error for url: https://www.ups.com/''))"
  by (simp add: requests_raise_for_status_def error_response_def str_nat_500)

lemma ok_response_check: "requests_raise_for_status ok_response = None"
  by (simp add: requests_raise_for_status_def ok_response_def)

lemma handler_failure:
  assumes "func args s = (res, s')"
    and "res = Inl e \<or> (\<exists>obj. res = Inr obj \<and> raise_for_status rfs obj = Some e)"
  shows "handler rfs func args s log = (case except_clauses e log of (out, log') \<Rightarrow> (out, s', log'))"
  using assms by (auto simp: handler_def)

lemma except_clauses_Exception:
  assumes "isinstance e Exception"
  shows "except_clauses e log =
           (Returned PyNone,
            log @ [LogRecord ''WARNING''
                     (exc_str e @ (if isinstance e HTTPError then '' - Issue with request''
                                   else '' - issue in program''))])"
  using assms by (simp add: except_clauses_def logging_warning_def)

lemma except_clauses_other:
  assumes "\<not> isinstance e Exception"
  shows "except_clauses e log = (Raised e, log)"
proof -
  have "\<not> isinstance e HTTPError"
    using assms by (cases e; cases "exc_cls e") (auto simp: isinstance_def)
  with assms show ?thesis by (simp add: except_clauses_def)
qed

lemma ups_request_result:
  "fst (make_request net tns (Ups u, trace)) =
     map_sum id Response
       (net (trace @ [POST (ups_url u)
                       (str_dict (AList.update ''TrackingNumber'' (StrList tns) (ups_body u)))
                       (ups_headers u)]))"
  by (simp add: make_request_def ups_make_request_def requests_post_def Let_def)

text \<open>
  C1 (as amended). Whenever \<^verbatim>\<open>_make_request\<close> raises an exception \<open>e\<close>, or returns an object
  whose \<^verbatim>\<open>raise_for_status\<close> raises \<open>e\<close>, and \<open>e\<close> is an instance of \<^verbatim>\<open>Exception\<close> (an
  HTTPError or any other subclass of it), \<^verbatim>\<open>track\<close> returns \<^verbatim>\<open>None\<close>, raises nothing, and
  appends exactly one WARNING record to the log.
\<close>

theorem track_absorbs_Exception:
  assumes "make_request net tns st = (res, st')"
    and "res = Inl e \<or> (\<exists>obj. res = Inr obj \<and> raise_for_status rfs obj = Some e)"
    and "isinstance e Exception"
  shows "\<exists>msg. track rfs net tns st log = (Returned PyNone, st', log @ [LogRecord ''WARNING'' msg])"
  unfolding track_def
  by (simp add: handler_failure [of "make_request net" tns st res st' e rfs log, OF assms(1,2)]
        except_clauses_Exception [OF assms(3)])

text \<open>The theorem at a UPS tracker whose request is answered with status 500.\<close>

theorem track_absorbs_Exception_witness:
  "\<exists>msg. track requests_raise_for_status net_500 [''1Z999AA10123456784''] (Ups UpsTracktor_init, []) []
     = (Returned PyNone,
        snd (make_request net_500 [''1Z999AA10123456784''] (Ups UpsTracktor_init, [])),
        [] @ [LogRecord ''WARNING'' msg])"
proof -
  let ?st = "(Ups UpsTracktor_init, [] :: http_request list)"
  let ?r = "make_request net_500 [''1Z999AA10123456784''] ?st"
  let ?e = "Exn HTTPError ''500 Server Error: Internal Server Error for url: https://www.ups.com/''"
  have run: "?r = (fst ?r, snd ?r)" by simp
  have res: "fst ?r = Inr (Response error_response)"
    by (simp add: ups_request_result net_500_def)
  have fails: "fst ?r = Inl ?e \<or>
      (\<exists>obj. fst ?r = Inr obj \<and> raise_for_status requests_raise_for_status obj = Some ?e)"
    by (simp add: res error_response_check)
  have inst: "isinstance ?e Exception"
    by (simp add: isinstance_def)
  show ?thesis
    by (rule track_absorbs_Exception [OF run fails inst])
qed

text \<open>
  C1 as stated fails: \<^verbatim>\<open>except Exception\<close> does not match KeyboardInterrupt, which derives
  from BaseException only. When the request is interrupted, \<^verbatim>\<open>_make_request\<close> raises, and
  \<^verbatim>\<open>track\<close> raises the same exception to its caller and logs nothing.
\<close>

theorem track_KeyboardInterrupt_propagates:
  "fst (make_request net_interrupted [''1Z999AA10123456784''] (Ups UpsTracktor_init, []))
     = (Inl (Exn KeyboardInterrupt []) :: exn + response pyobj)
   \<and> fst (track requests_raise_for_status net_interrupted [''1Z999AA10123456784'']
            (Ups UpsTracktor_init, []) [])
     = Raised (Exn KeyboardInterrupt [])
   \<and> snd (snd (track requests_raise_for_status net_interrupted [''1Z999AA10123456784'']
            (Ups UpsTracktor_init, []) [])) = []"
proof -
  let ?st = "(Ups UpsTracktor_init, [] :: http_request list)"
  let ?r = "make_request net_interrupted [''1Z999AA10123456784''] ?st :: (exn + response pyobj) \<times> _"
  have res: "fst ?r = Inl (Exn KeyboardInterrupt [])"
    by (simp add: ups_request_result net_interrupted_def)
  have run: "?r = (fst ?r, snd ?r)" by simp
  have "handler requests_raise_for_status (make_request net_interrupted) [''1Z999AA10123456784''] ?st []
        = (case except_clauses (Exn KeyboardInterrupt []) [] of (out, log') \<Rightarrow> (out, snd ?r, log'))"
    by (rule handler_failure [of "make_request net_interrupted" _ _ "fst ?r" "snd ?r", OF run])
       (simp add: res)
  moreover have "\<not> isinstance (Exn KeyboardInterrupt []) Exception"
    by (simp add: isinstance_def)
  ultimately show ?thesis
    by (simp add: track_def res except_clauses_other)
qed

text \<open>
  C2. Whenever \<^verbatim>\<open>_make_request\<close> returns a response object and its \<^verbatim>\<open>raise_for_status\<close> raises
  nothing, \<^verbatim>\<open>track\<close> returns that same response and leaves the log as it was.
\<close>

theorem track_success_identity:
  assumes "make_request net tns st = (Inr (Response r), st')"
    and "rfs r = None"
  shows "track rfs net tns st log = (Returned (Response r), st', log)"
  using assms by (simp add: track_def handler_def)

theorem track_success_identity_witness:
  "track requests_raise_for_status net_ok [''1Z999AA10123456784''] (Ups UpsTracktor_init, []) []
     = (Returned (Response ok_response),
        snd (make_request net_ok [''1Z999AA10123456784''] (Ups UpsTracktor_init, [])),
        [])"
proof -
  let ?r = "make_request net_ok [''1Z999AA10123456784''] (Ups UpsTracktor_init, [])"
  have "fst ?r = Inr (Response ok_response)"
    by (simp add: ups_request_result net_ok_def)
  then have run: "?r = (Inr (Response ok_response), snd ?r)"
    by (metis prod.collapse)
  show ?thesis
    using track_success_identity [of net_ok _ _ ok_response _ requests_raise_for_status "[]", OF run]
    by (simp add: ok_response_check)
qed

section \<open>Building the USPS document\<close>

lemma utf8_decode_ascii:
  "b < 128 \<Longrightarrow> utf8_decode (b # bs) = map_option (\<lambda>s. char_of b # s) (utf8_decode bs)"
  by (cases bs) simp_all

lemma utf8_two:
  fixes n :: nat
  assumes "128 \<le> n" "n < 256"
  shows "utf8_decode ((192 + n div 64) # (128 + n mod 64) # bs)
         = map_option (\<lambda>s. char_of n # s) (utf8_decode bs)"
proof -
  have "n div 64 < 4" using assms(2) by (simp add: less_mult_imp_div_less)
  moreover have "2 \<le> n div 64" using div_le_mono [OF assms(1), of 64] by simp
  ultimately have lead: "192 + n div 64 = 194 \<or> 192 + n div 64 = 195" by linarith
  have nl: "\<not> 192 + n div 64 < 128" by simp
  have b2: "128 \<le> 128 + n mod 64" "128 + n mod 64 < 192" by simp_all
  have rejoin: "(192 + n div 64 - 192) * 64 + (128 + n mod 64 - 128) = n" by simp
  show ?thesis
    by (simp only: utf8_decode.simps nl lead b2 rejoin if_True if_False simp_thms)
qed

lemma utf8_decode_encode_char:
  "utf8_decode (utf8_encode_char c @ bs) = map_option (\<lambda>s. c # s) (utf8_decode bs)"
proof (cases "(of_char c :: nat) < 128")
  case True
  then show ?thesis by (simp add: utf8_encode_char_def utf8_decode_ascii)
next
  case False
  then have "128 \<le> (of_char c :: nat)" "(of_char c :: nat) < 256" by simp_all
  note two = utf8_two [OF this]
  have "utf8_encode_char c = [192 + of_char c div 64, 128 + of_char c mod 64]"
    using False by (simp add: utf8_encode_char_def Let_def)
  then show ?thesis
    by (simp only: append_Cons append_Nil two char_of_char)
qed

lemma utf8_roundtrip: "utf8_decode (utf8_encode s) = Some s"
  by (induction s) (simp_all add: utf8_encode_def utf8_decode_encode_char)

lemma add_tracking_numbers_children:
  "add_tracking_numbers tns \<lparr>tb_elem = [Element t a kids], tb_root = r\<rparr>
     = Inr \<lparr>tb_elem = [Element t a (kids @ map track_id tns)], tb_root = r\<rparr>"
  by (induction tns arbitrary: kids) (simp_all add: tb_start_def tb_end_def track_id_def)

lemma build_xml_result:
  assumes "usps_tracking_numbers self = Some tns"
  shows "build_xml self = Inr (ElementTree_write (track_request (usps_user_id self) tns))"
  using assms
  by (simp add: build_xml_def tb_start_def TreeBuilder_def add_tracking_numbers_children
        tb_end_def tb_close_def utf8_roundtrip track_request_def)

lemma usps_request_result:
  "fst (make_request net tns (Usps u, trace)) =
     map_sum id Response
       (net (trace @ [GET (usps_url u)
                       (AList.update ''XML'' (ElementTree_write (track_request (usps_user_id u) tns))
                          (usps_params u))]))"
  by (simp add: make_request_def usps_make_request_def requests_get_def Let_def build_xml_result)

text \<open>
  C10 (as amended). When the failure is an instance of \<^verbatim>\<open>Exception\<close>, the one WARNING record
  tells the kind: its message is the exception's text followed by \<^verbatim>\<open> - Issue with request\<close>
  for an HTTPError and by \<^verbatim>\<open> - issue in program\<close> for any other \<^verbatim>\<open>Exception\<close>; in both
  cases \<^verbatim>\<open>track\<close> returns \<^verbatim>\<open>None\<close>.
\<close>

theorem track_log_distinguishes:
  assumes "make_request net tns st = (res, st')"
    and "res = Inl e \<or> (\<exists>obj. res = Inr obj \<and> raise_for_status rfs obj = Some e)"
    and "isinstance e Exception"
  shows "track rfs net tns st log =
           (Returned PyNone, st',
            log @ [LogRecord ''WARNING''
                     (exc_str e @ (if isinstance e HTTPError then '' - Issue with request''
                                   else '' - issue in program''))])"
  unfolding track_def
  by (simp add: handler_failure [of "make_request net" tns st res st' e rfs log, OF assms(1,2)]
        except_clauses_Exception [OF assms(3)])

text \<open>
  The theorem at a USPS tracker whose connection is refused.
\<close>

theorem track_log_distinguishes_witness:
  "track requests_raise_for_status net_down [''9400111202555842761005'']
     (Usps (UspsTracktor_init ''123USERID''), []) []
   = (Returned PyNone,
      snd (make_request net_down [''9400111202555842761005'']
             (Usps (UspsTracktor_init ''123USERID''), [])),
      [LogRecord ''WARNING'' ''Connection refused - issue in program''])"
proof -
  let ?st = "(Usps (UspsTracktor_init ''123USERID''), [] :: http_request list)"
  let ?r = "make_request net_down [''9400111202555842761005''] ?st :: (exn + response pyobj) \<times> _"
  let ?e = "Exn ConnectionError ''Connection refused''"
  have run: "?r = (fst ?r, snd ?r)" by simp
  have fails: "fst ?r = Inl ?e \<or>
      (\<exists>obj. fst ?r = Inr obj \<and> raise_for_status requests_raise_for_status obj = Some ?e)"
    by (simp add: usps_request_result net_down_def)
  have inst: "isinstance ?e Exception"
    by (simp add: isinstance_def)
  show ?thesis
    using track_log_distinguishes [OF run fails inst, of "[]"]
    by (simp add: isinstance_def)
qed

text \<open>
  C10 as stated fails for an exception outside \<^verbatim>\<open>Exception\<close>: when the request raises
  SystemExit, no record is logged at all and the caller gets the exception, not \<^verbatim>\<open>None\<close>.
\<close>

theorem track_SystemExit_logs_nothing:
  "fst (make_request net_exit [''9400111202555842761005'']
          (Usps (UspsTracktor_init ''123USERID''), []))
     = (Inl (Exn SystemExit ''1'') :: exn + response pyobj)
   \<and> track requests_raise_for_status net_exit [''9400111202555842761005'']
         (Usps (UspsTracktor_init ''123USERID''), []) []
     = (Raised (Exn SystemExit ''1''),
        snd (make_request net_exit [''9400111202555842761005'']
               (Usps (UspsTracktor_init ''123USERID''), [])),
        [])"
proof -
  let ?st = "(Usps (UspsTracktor_init ''123USERID''), [] :: http_request list)"
  let ?r = "make_request net_exit [''9400111202555842761005''] ?st :: (exn + response pyobj) \<times> _"
  have res: "fst ?r = Inl (Exn SystemExit ''1'')"
    by (simp add: usps_request_result net_exit_def)
  have run: "?r = (fst ?r, snd ?r)" by simp
  have "handler requests_raise_for_status (make_request net_exit) [''9400111202555842761005''] ?st []
        = (case except_clauses (Exn SystemExit ''1'') [] of (out, log') \<Rightarrow> (out, snd ?r, log'))"
    by (rule handler_failure [of "make_request net_exit" _ _ "fst ?r" "snd ?r", OF run])
       (simp add: res)
  moreover have "\<not> isinstance (Exn SystemExit ''1'') Exception"
    by (simp add: isinstance_def)
  ultimately show ?thesis
    by (simp add: track_def res except_clauses_other)
qed

section \<open>Construction\<close>

text \<open>
  C8 (as amended). Constructing a UspsTracktor takes one user identifier and accepts any
  string, the empty one included: the instance holds it unchanged, with the fixed URL and
  the fixed \<^verbatim>\<open>API\<close> parameter.
\<close>

theorem UspsTracktor_accepts_any_user_id:
  "instantiate UspsTracktor_cls [user_id] =
     Inr (Usps \<lparr> usps_user_id = user_id,
                 usps_url = ''http://production.shippingapis.com/ShippingAPI.dll'',
                 usps_params = [(''API'', ''TrackV2'')],
                 usps_tracking_numbers = None \<rparr>)"
  by (simp add: instantiate_def abc_new_def Tracktor_abstractmethods_def UspsTracktor_init_def)

text \<open>
  C8 as stated fails: construction with the empty user identifier succeeds.
\<close>

theorem UspsTracktor_accepts_empty_user_id:
  "instantiate UspsTracktor_cls [''''] = Inr (Usps (UspsTracktor_init ''''))"
  by (simp add: instantiate_def abc_new_def Tracktor_abstractmethods_def)

text \<open>
  C9. \<^verbatim>\<open>_make_request\<close> is the one abstract method of Tracktor, so instantiating Tracktor
  raises TypeError whatever the arguments; both subclasses override it and are
  constructible; and a construction succeeds only for UpsTracktor (without arguments) and
  UspsTracktor (with one argument).
\<close>

theorem Tracktor_is_abstract:
  "abstractmethods Tracktor_cls = [''_make_request'']
   \<and> (\<exists>msg. instantiate Tracktor_cls args = Inl (Exn TypeError msg))
   \<and> instantiate UpsTracktor_cls [] = Inr (Ups UpsTracktor_init)
   \<and> instantiate UspsTracktor_cls [user_id] = Inr (Usps (UspsTracktor_init user_id))
   \<and> (\<not> isl (instantiate c a)) =
       ((c = UpsTracktor_cls \<and> a = []) \<or> (c = UspsTracktor_cls \<and> length a = 1))"
proof -
  have last: "(\<not> isl (instantiate c a)) =
       ((c = UpsTracktor_cls \<and> a = []) \<or> (c = UspsTracktor_cls \<and> length a = 1))"
    by (cases c; cases a; cases "tl a")
       (auto simp: instantiate_def abc_new_def Tracktor_abstractmethods_def)
  show ?thesis
    using last by (simp add: instantiate_def abc_new_def Tracktor_abstractmethods_def)
qed

section \<open>The requests that are sent\<close>

lemma ups_configured_body:
  assumes "ups_configured u"
  shows "AList.update ''TrackingNumber'' v (ups_body u)
         = [(''Locale'', Str ''en_US''), (''Requester'', Str ''wt/trackdetails''),
            (''TrackingNumber'', v)]"
proof -
  have split: "ups_body u = take 2 (ups_body u) @ drop 2 (ups_body u)" by simp
  from assms have hd2: "take 2 (ups_body u) = [(''Locale'', Str ''en_US''), (''Requester'', Str ''wt/trackdetails'')]"
    by (simp add: ups_configured_def UpsTracktor_init_def)
  from assms consider "drop 2 (ups_body u) = []" | w where "drop 2 (ups_body u) = [(''TrackingNumber'', w)]"
    by (auto simp: ups_configured_def)
  then show ?thesis
  proof cases
    case 1
    with split hd2 have "ups_body u = [(''Locale'', Str ''en_US''), (''Requester'', Str ''wt/trackdetails'')]"
      by simp
    then show ?thesis by simp
  next
    case 2
    with split hd2 have "ups_body u = [(''Locale'', Str ''en_US''), (''Requester'', Str ''wt/trackdetails''), (''TrackingNumber'', w)]"
      by simp
    then show ?thesis by simp
  qed
qed

lemma usps_configured_params:
  assumes "usps_configured uid u"
  shows "AList.update ''XML'' x (usps_params u) = [(''API'', ''TrackV2''), (''XML'', x)]"
proof -
  from assms have hd1: "take 1 (usps_params u) = [(''API'', ''TrackV2'')]"
    by (simp add: usps_configured_def)
  from assms consider "drop 1 (usps_params u) = []" | w where "drop 1 (usps_params u) = [(''XML'', w)]"
    by (auto simp: usps_configured_def)
  then show ?thesis
  proof cases
    case 1
    with hd1 have "usps_params u = [(''API'', ''TrackV2'')]"
      by (metis append_take_drop_id append_Nil2)
    then show ?thesis by simp
  next
    case 2
    with hd1 have "usps_params u = [(''API'', ''TrackV2''), (''XML'', w)]"
      by (metis append_take_drop_id append_Cons append_Nil)
    then show ?thesis by simp
  qed
qed

lemma ups_step:
  "snd (make_request net tns (Ups u, t)) =
     (Ups (u\<lparr>ups_body := AList.update ''TrackingNumber'' (StrList tns) (ups_body u)\<rparr>),
      t @ [POST (ups_url u)
             (str_dict (AList.update ''TrackingNumber'' (StrList tns) (ups_body u)))
             (ups_headers u)])"
  by (simp add: make_request_def ups_make_request_def requests_post_def Let_def)

lemma usps_step:
  "snd (make_request net tns (Usps u, t)) =
     (Usps (u\<lparr>usps_tracking_numbers := Some tns,
              usps_params := AList.update ''XML''
                 (ElementTree_write (track_request (usps_user_id u) tns)) (usps_params u)\<rparr>),
      t @ [GET (usps_url u)
             (AList.update ''XML'' (ElementTree_write (track_request (usps_user_id u) tns))
                (usps_params u))])"
  by (simp add: make_request_def usps_make_request_def requests_get_def Let_def build_xml_result)

lemma ups_step_configured:
  assumes "ups_configured u"
  shows "ups_configured (u\<lparr>ups_body := AList.update ''TrackingNumber'' v (ups_body u)\<rparr>)"
  using assms ups_configured_body [OF assms, of v]
  by (simp add: ups_configured_def UpsTracktor_init_def)

lemma usps_step_configured:
  assumes "usps_configured uid u"
  shows "usps_configured uid
           (u\<lparr>usps_tracking_numbers := Some tns,
              usps_params := AList.update ''XML'' x (usps_params u)\<rparr>)"
  using assms usps_configured_params [OF assms, of x]
  by (simp add: usps_configured_def UspsTracktor_init_def)

lemma ups_run_configured:
  assumes "ups_configured u"
  shows "\<exists>u'. fst (run_requests net calls (Ups u, t)) = Ups u' \<and> ups_configured u'"
  using assms
proof (induction calls arbitrary: u t)
  case Nil
  then show ?case by simp
next
  case (Cons tns calls)
  from ups_step_configured [OF Cons.prems]
  show ?case by (simp add: ups_step Cons.IH)
qed

lemma usps_run_configured:
  assumes "usps_configured uid u"
  shows "\<exists>u'. fst (run_requests net calls (Usps u, t)) = Usps u' \<and> usps_configured uid u'"
  using assms
proof (induction calls arbitrary: u t)
  case Nil
  then show ?case by simp
next
  case (Cons tns calls)
  from usps_step_configured [OF Cons.prems]
  show ?case by (simp add: usps_step Cons.IH)
qed

lemma ups_init_configured: "ups_configured UpsTracktor_init"
  by (simp add: ups_configured_def UpsTracktor_init_def)

lemma usps_init_configured: "usps_configured uid (UspsTracktor_init uid)"
  by (simp add: usps_configured_def UspsTracktor_init_def)

text \<open>
  C4. On a UpsTracktor, newly constructed or after any earlier calls, \<^verbatim>\<open>_make_request\<close>
  adds exactly one request to the trace: a POST to the fixed URL with the fixed headers,
  whose data is \<^verbatim>\<open>str\<close> of the body mapping with \<^verbatim>\<open>Locale\<close>, \<^verbatim>\<open>Requester\<close> and
  \<^verbatim>\<open>TrackingNumber\<close> = the input list, in that order; the instance's body is that mapping.
\<close>

theorem ups_make_request_posts_once:
  "snd (make_request net tracking_numbers (run_requests net calls (Ups UpsTracktor_init, trace)))
   = (Ups (UpsTracktor_init\<lparr>ups_body :=
             [(''Locale'', Str ''en_US''), (''Requester'', Str ''wt/trackdetails''),
              (''TrackingNumber'', StrList tracking_numbers)]\<rparr>),
      snd (run_requests net calls (Ups UpsTracktor_init, trace))
      @ [POST ''https://www.ups.com/track/api/Track/GetStatus?loc=en_US''
           (str_dict [(''Locale'', Str ''en_US''), (''Requester'', Str ''wt/trackdetails''),
                      (''TrackingNumber'', StrList tracking_numbers)])
           [(''accept'', ''application/json, text/plain, */*''),
            (''content-type'', ''application/json'')]])"
proof -
  obtain u where u: "fst (run_requests net calls (Ups UpsTracktor_init, trace)) = Ups u"
    and conf: "ups_configured u"
    using ups_run_configured [OF ups_init_configured] by blast
  then have st: "run_requests net calls (Ups UpsTracktor_init, trace)
                 = (Ups u, snd (run_requests net calls (Ups UpsTracktor_init, trace)))"
    by (metis prod.collapse)
  from conf have "u\<lparr>ups_body := b\<rparr> = UpsTracktor_init\<lparr>ups_body := b\<rparr>" for b
    by (cases u) (simp add: ups_configured_def UpsTracktor_init_def)
  moreover from conf have "ups_url u = ''https://www.ups.com/track/api/Track/GetStatus?loc=en_US''"
    "ups_headers u = [(''accept'', ''application/json, text/plain, */*''),
                      (''content-type'', ''application/json'')]"
    by (simp_all add: ups_configured_def UpsTracktor_init_def)
  ultimately show ?thesis
    by (subst st, subst st) (simp add: ups_step ups_configured_body [OF conf])
qed

text \<open>
  C5. On a UspsTracktor, newly constructed or after any earlier calls, \<^verbatim>\<open>_make_request\<close>
  adds exactly one request to the trace: a GET to the fixed URL whose parameters are
  \<^verbatim>\<open>API\<close> = TrackV2 and \<^verbatim>\<open>XML\<close> = the serialized document built from the input: the
  declaration and the tree with root TrackRequest (USERID = the user identifier) and one
  TrackID child per tracking number, in order, as ElementTree writes it. That text is what
  \<^verbatim>\<open>_build_xml\<close> returns for the user identifier and the input list.
\<close>

theorem usps_make_request_gets_once:
  "build_xml ((UspsTracktor_init user_id)\<lparr>usps_tracking_numbers := Some tracking_numbers\<rparr>)
     = Inr (ElementTree_write (track_request user_id tracking_numbers))
   \<and> snd (snd (make_request net tracking_numbers
                 (run_requests net calls (Usps (UspsTracktor_init user_id), trace))))
     = snd (run_requests net calls (Usps (UspsTracktor_init user_id), trace))
       @ [GET ''http://production.shippingapis.com/ShippingAPI.dll''
            [(''API'', ''TrackV2''),
             (''XML'', ElementTree_write (track_request user_id tracking_numbers))]]"
proof -
  obtain u where u: "fst (run_requests net calls (Usps (UspsTracktor_init user_id), trace)) = Usps u"
    and conf: "usps_configured user_id u"
    using usps_run_configured [OF usps_init_configured] by blast
  then have st: "run_requests net calls (Usps (UspsTracktor_init user_id), trace)
                 = (Usps u, snd (run_requests net calls (Usps (UspsTracktor_init user_id), trace)))"
    by (metis prod.collapse)
  from conf have cfg: "usps_user_id u = user_id"
    "usps_url u = ''http://production.shippingapis.com/ShippingAPI.dll''"
    by (simp_all add: usps_configured_def UspsTracktor_init_def)
  have "build_xml ((UspsTracktor_init user_id)\<lparr>usps_tracking_numbers := Some tracking_numbers\<rparr>)
        = Inr (ElementTree_write (track_request user_id tracking_numbers))"
    by (simp add: build_xml_result UspsTracktor_init_def)
  moreover have "snd (snd (make_request net tracking_numbers
                   (run_requests net calls (Usps (UspsTracktor_init user_id), trace))))
       = snd (run_requests net calls (Usps (UspsTracktor_init user_id), trace))
         @ [GET ''http://production.shippingapis.com/ShippingAPI.dll''
              [(''API'', ''TrackV2''),
               (''XML'', ElementTree_write (track_request user_id tracking_numbers))]]"
    by (subst st, subst st) (simp add: usps_step usps_configured_params [OF conf] cfg)
  ultimately show ?thesis by blast
qed

text \<open>
  C6. Two calls of \<^verbatim>\<open>_make_request\<close> in succession with the same list, on any UpsTracktor
  or UspsTracktor instance, send the same request twice: the same POST data for UPS, the
  same parameters for USPS.
\<close>

theorem make_request_twice_same_payload:
  "snd (snd (make_request net tns (snd (make_request net tns (Ups u, trace)))))
     = trace @ [POST (ups_url u)
                  (str_dict (AList.update ''TrackingNumber'' (StrList tns) (ups_body u)))
                  (ups_headers u),
                POST (ups_url u)
                  (str_dict (AList.update ''TrackingNumber'' (StrList tns) (ups_body u)))
                  (ups_headers u)]
   \<and> snd (snd (make_request net tns (snd (make_request net tns (Usps v, trace)))))
     = trace @ [GET (usps_url v)
                  (AList.update ''XML'' (ElementTree_write (track_request (usps_user_id v) tns))
                     (usps_params v)),
                GET (usps_url v)
                  (AList.update ''XML'' (ElementTree_write (track_request (usps_user_id v) tns))
                     (usps_params v))]"
  by (simp add: ups_step usps_step)

lemma ups_run_last:
  assumes "ups_configured u" and "calls \<noteq> []"
  shows "\<exists>u'. fst (run_requests net calls (Ups u, t)) = Ups u'
           \<and> ups_body u' = [(''Locale'', Str ''en_US''), (''Requester'', Str ''wt/trackdetails''),
                            (''TrackingNumber'', StrList (last calls))]"
  using assms
proof (induction calls arbitrary: u t)
  case Nil
  then show ?case by simp
next
  case (Cons tns calls)
  note step = ups_step_configured [OF Cons.prems(1), of "StrList tns"]
  show ?case
  proof (cases "calls = []")
    case True
    then show ?thesis
      by (simp add: ups_step ups_configured_body [OF Cons.prems(1)])
  next
    case False
    from Cons.IH [OF step False] False show ?thesis
      by (simp add: ups_step)
  qed
qed

text \<open>
  C7. After any sequence of \<^verbatim>\<open>_make_request\<close> calls on a newly constructed instance, the
  UPS URL, headers and the \<^verbatim>\<open>Locale\<close> and \<^verbatim>\<open>Requester\<close> entries are as constructed, and
  the body differs from the constructed one only by the \<^verbatim>\<open>TrackingNumber\<close> entry of the
  last call; the USPS URL, user identifier and \<^verbatim>\<open>API\<close> parameter are as constructed.
\<close>

theorem configuration_is_preserved:
  "(\<exists>u. fst (run_requests net calls (Ups UpsTracktor_init, trace)) = Ups u
       \<and> ups_url u = ''https://www.ups.com/track/api/Track/GetStatus?loc=en_US''
       \<and> ups_headers u = [(''accept'', ''application/json, text/plain, */*''),
                          (''content-type'', ''application/json'')]
       \<and> map_of (ups_body u) ''Locale'' = Some (Str ''en_US'')
       \<and> map_of (ups_body u) ''Requester'' = Some (Str ''wt/trackdetails'')
       \<and> ups_body u =
           (if calls = [] then [(''Locale'', Str ''en_US''), (''Requester'', Str ''wt/trackdetails'')]
            else [(''Locale'', Str ''en_US''), (''Requester'', Str ''wt/trackdetails''),
                  (''TrackingNumber'', StrList (last calls))]))
   \<and> (\<exists>v. fst (run_requests net calls (Usps (UspsTracktor_init user_id), trace)) = Usps v
       \<and> usps_url v = ''http://production.shippingapis.com/ShippingAPI.dll''
       \<and> usps_user_id v = user_id
       \<and> map_of (usps_params v) ''API'' = Some ''TrackV2'')"
proof -
  obtain u where u: "fst (run_requests net calls (Ups UpsTracktor_init, trace)) = Ups u"
    and conf: "ups_configured u"
    using ups_run_configured [OF ups_init_configured] by blast
  have body: "ups_body u =
           (if calls = [] then [(''Locale'', Str ''en_US''), (''Requester'', Str ''wt/trackdetails'')]
            else [(''Locale'', Str ''en_US''), (''Requester'', Str ''wt/trackdetails''),
                  (''TrackingNumber'', StrList (last calls))])"
  proof (cases "calls = []")
    case True
    with u have "u = UpsTracktor_init" by simp
    with True show ?thesis by (simp add: UpsTracktor_init_def)
  next
    case False
    from ups_run_last [OF ups_init_configured False, of net trace] u False
    show ?thesis by auto
  qed
  from conf have fixed: "ups_url u = ''https://www.ups.com/track/api/Track/GetStatus?loc=en_US''"
    "ups_headers u = [(''accept'', ''application/json, text/plain, */*''),
                      (''content-type'', ''application/json'')]"
    by (simp_all add: ups_configured_def UpsTracktor_init_def)
  have entries: "map_of (ups_body u) ''Locale'' = Some (Str ''en_US'')"
    "map_of (ups_body u) ''Requester'' = Some (Str ''wt/trackdetails'')"
    by (simp_all add: body)
  obtain v where v: "fst (run_requests net calls (Usps (UspsTracktor_init user_id), trace)) = Usps v"
    and vconf: "usps_configured user_id v"
    using usps_run_configured [OF usps_init_configured] by blast
  from vconf have vfixed: "usps_url v = ''http://production.shippingapis.com/ShippingAPI.dll''"
    "usps_user_id v = user_id"
    by (simp_all add: usps_configured_def UspsTracktor_init_def)
  from usps_configured_params [OF vconf, of "[]"]
  have "map_of (AList.update ''XML'' [] (usps_params v)) ''API'' = Some ''TrackV2''"
    by simp
  then have api: "map_of (usps_params v) ''API'' = Some ''TrackV2''"
    by (simp add: update_conv')
  from u body fixed entries v vfixed api show ?thesis by blast
qed

section \<open>The USPS document is well-formed\<close>

lemma utf8_two_bytes:
  fixes n :: nat
  assumes "128 \<le> n" "n < 2048"
  shows "utf8_decode_from None ((192 + n div 64) # (128 + n mod 64) # bs)
         = map_option (\<lambda>s. n # s) (utf8_decode_from None bs)"
proof -
  have q: "n div 64 < 32" using assms(2) by (simp add: less_mult_imp_div_less)
  have r: "n mod 64 < 64" by simp
  have rejoin: "n div 64 * 64 + n mod 64 = n" by simp
  from assms q r show ?thesis
    by (simp add: is_continuation_def rejoin)
qed

lemma utf8_three_bytes:
  fixes n :: nat
  assumes "2048 \<le> n" "n < 65536" "\<not> (55296 \<le> n \<and> n \<le> 57343)"
  shows "utf8_decode_from None
           ((224 + n div 4096) # (128 + n div 64 mod 64) # (128 + n mod 64) # bs)
         = map_option (\<lambda>s. n # s) (utf8_decode_from None bs)"
proof -
  have q: "n div 4096 < 16" using assms(2) by (simp add: less_mult_imp_div_less)
  have r1: "n div 64 mod 64 < 64" and r0: "n mod 64 < 64" by simp_all
  have "n div 4096 = n div 64 div 64" by (simp add: div_mult2_eq [symmetric])
  then have mid: "n div 4096 * 64 + n div 64 mod 64 = n div 64" by simp
  have low: "n = 64 * (n div 64) + n mod 64" by simp
  from mid low have rejoin: "4096 * (n div 4096) + n div 64 mod 64 * 64 + n mod 64 = n"
    by linarith
  from assms q r1 r0 show ?thesis
    by (simp add: is_continuation_def rejoin Let_def)
qed

lemma utf8_four_bytes:
  fixes n :: nat
  assumes "65536 \<le> n" "n \<le> 1114111"
  shows "utf8_decode_from None
           ((240 + n div 262144) # (128 + n div 4096 mod 64) # (128 + n div 64 mod 64)
              # (128 + n mod 64) # bs)
         = map_option (\<lambda>s. n # s) (utf8_decode_from None bs)"
proof -
  have "n < 8 * 262144" using assms(2) by simp
  then have q: "n div 262144 < 8" by (simp add: less_mult_imp_div_less)
  have r2: "n div 4096 mod 64 < 64" and r1: "n div 64 mod 64 < 64" and r0: "n mod 64 < 64"
    by simp_all
  have "n div 262144 = n div 4096 div 64" by (simp add: div_mult2_eq [symmetric])
  then have top: "n div 262144 * 64 + n div 4096 mod 64 = n div 4096" by simp
  have "n div 4096 = n div 64 div 64" by (simp add: div_mult2_eq [symmetric])
  then have mid: "n div 4096 * 64 + n div 64 mod 64 = n div 64" by simp
  have low: "n = 64 * (n div 64) + n mod 64" by simp
  from top mid low
  have rejoin: "262144 * (n div 262144) + 4096 * (n div 4096 mod 64) + n div 64 mod 64 * 64
                 + n mod 64 = n"
    by linarith
  from assms q r2 r1 r0 show ?thesis
    by (simp add: is_continuation_def rejoin Let_def)
qed

lemma utf8_decode_encode_cp:
  assumes "encodable n"
  shows "utf8_decode_from None (utf8_encode_cp n @ bs)
         = map_option (\<lambda>s. n # s) (utf8_decode_from None bs)"
proof -
  consider "n < 128" | "128 \<le> n" "n < 2048"
    | "2048 \<le> n" "n < 65536" "\<not> (55296 \<le> n \<and> n \<le> 57343)"
    | "65536 \<le> n" "n \<le> 1114111"
    using assms unfolding encodable_def by atomize_elim arith
  then show ?thesis
  proof cases
    case 1
    then show ?thesis by (simp add: utf8_encode_cp_def)
  next
    case 2
    then have "utf8_encode_cp n = [192 + n div 64, 128 + n mod 64]"
      by (simp add: utf8_encode_cp_def)
    then show ?thesis
      by (simp only: append_Cons append_Nil utf8_two_bytes [OF 2])
  next
    case 3
    then have "utf8_encode_cp n = [224 + n div 4096, 128 + n div 64 mod 64, 128 + n mod 64]"
      by (auto simp: utf8_encode_cp_def)
    then show ?thesis
      by (simp only: append_Cons append_Nil utf8_three_bytes [OF 3])
  next
    case 4
    then have "utf8_encode_cp n = [240 + n div 262144, 128 + n div 4096 mod 64,
                                   128 + n div 64 mod 64, 128 + n mod 64]"
      by (simp add: utf8_encode_cp_def)
    then show ?thesis
      by (simp only: append_Cons append_Nil utf8_four_bytes [OF 4])
  qed
qed

lemma utf8_roundtrip_u:
  "list_all encodable s \<Longrightarrow> utf8_decode_u (utf8_encode_u s) = Some s"
  by (induction s) (simp_all add: utf8_encode_u_def utf8_decode_u_def utf8_decode_encode_cp)

lemma is_xml_char_encodable: "is_xml_char n \<Longrightarrow> encodable n"
  by (auto simp: is_xml_char_def encodable_def)

lemma xml_chars_encodable: "list_all is_xml_char s \<Longrightarrow> list_all encodable s"
  by (induction s) (simp_all add: is_xml_char_encodable)

lemma add_tracking_numbers_u_children:
  "add_tracking_numbers_u tns \<lparr>tb_elem_u = [Element_u t a kids], tb_root_u = r\<rparr>
     = Inr \<lparr>tb_elem_u = [Element_u t a (kids @ map track_id_u tns)], tb_root_u = r\<rparr>"
  by (induction tns arbitrary: kids) (simp_all add: tb_start_u_def tb_end_u_def track_id_u_def)

lemma replace_u_Nil: "replace_u a b [] = []"
  by (simp add: replace_u_def)

lemma replace_u_Cons: "replace_u a b (c # cs) = (if c = a then b else [c]) @ replace_u a b cs"
  by (simp add: replace_u_def)

lemma replace_u_append: "replace_u a b (xs @ ys) = replace_u a b xs @ replace_u a b ys"
  by (simp add: replace_u_def)

lemma escape_attrib_u_Nil: "escape_attrib_u [] = []"
  by (simp add: escape_attrib_u_def replace_u_Nil)

lemma escape_attrib_u_Cons: "escape_attrib_u (c # cs) = escape_char c @ escape_attrib_u cs"
  by (simp add: escape_attrib_u_def escape_char_def replace_u_Cons replace_u_append
        replace_u_Nil ustr_def)

lemma escape_attrib_u_concat: "escape_attrib_u v = concat (map escape_char v)"
  by (induction v) (simp_all add: escape_attrib_u_Nil escape_attrib_u_Cons)

lemma serialize_track_id_u: "serialize_xml_u False (track_id_u t) = track_id_text t"
  by (simp add: track_id_u_def track_id_text_def ustr_def)

lemma serialize_track_request_u:
  "serialize_xml_u False (track_request_u uid tns) = track_request_text uid tns"
  by (simp add: track_request_u_def track_request_text_def serialize_track_id_u comp_def
        del: serialize_xml_u.simps
        add: serialize_xml_u.simps [of False "ustr ''TrackRequest''"])
     (simp add: ustr_def)

lemma ElementTree_write_u_text:
  "ElementTree_write_u (track_request_u uid tns)
   = xml_declaration @ [0x0A] @ track_request_text uid tns"
  by (simp add: ElementTree_write_u_def xml_declaration_def serialize_track_request_u
        del: serialize_xml_u.simps)

lemma build_xml_u_decoded:
  assumes "utf8_decode_u (utf8_encode_u (xml_declaration @ [0x0A] @ track_request_text uid tns))
           = Some doc"
  shows "build_xml_u uid (Some tns) = Inr doc"
proof -
  have started: "add_tracking_numbers_u tns
          (tb_start_u (ustr ''TrackRequest'') [(ustr ''USERID'', uid)] TreeBuilder_u)
        = Inr \<lparr>tb_elem_u = [track_request_u uid tns], tb_root_u = None\<rparr>"
    by (simp add: tb_start_u_def TreeBuilder_u_def add_tracking_numbers_u_children
          track_request_u_def)
  have ended: "tb_end_u (ustr ''TrackRequest'')
          \<lparr>tb_elem_u = [track_request_u uid tns], tb_root_u = None\<rparr>
        = Inr \<lparr>tb_elem_u = [], tb_root_u = Some (track_request_u uid tns)\<rparr>"
    by (simp add: tb_end_u_def track_request_u_def)
  have closed: "tb_close_u \<lparr>tb_elem_u = [], tb_root_u = Some (track_request_u uid tns)\<rparr>
        = Inr (track_request_u uid tns)"
    by (simp add: tb_close_u_def)
  show ?thesis
    unfolding build_xml_u_def Let_def
    by (simp only: started ended closed ElementTree_write_u_text assms option.case sum.case)
qed

lemma build_xml_u_text:
  assumes "list_all encodable (xml_declaration @ [0x0A] @ track_request_text uid tns)"
  shows "build_xml_u uid (Some tns) = Inr (xml_declaration @ [0x0A] @ track_request_text uid tns)"
  by (rule build_xml_u_decoded) (rule utf8_roundtrip_u [OF assms])

lemma decode_ref_amp: "decode_ref (ustr ''amp'') = Some 0x26"
  and decode_ref_lt: "decode_ref (ustr ''lt'') = Some 0x3C"
  and decode_ref_gt: "decode_ref (ustr ''gt'') = Some 0x3E"
  and decode_ref_quot: "decode_ref (ustr ''quot'') = Some 0x22"
  by (simp_all add: decode_ref_def ustr_def)

lemma decode_ref_13: "decode_ref (ustr ''#13'') = Some 0x0D"
  and decode_ref_10: "decode_ref (ustr ''#10'') = Some 0x0A"
  and decode_ref_09: "decode_ref (ustr ''#09'') = Some 0x09"
  by (simp_all add: decode_ref_def digit_val_def char_ref_def is_xml_char_def ustr_def)

lemmas name_chars = is_name_char_def is_name_start_def is_space_def

lemma att_value_escape_char:
  assumes "is_xml_char c"
  shows "att_value 0x22 None (escape_char c @ s)
         = (case att_value 0x22 None s of
              None \<Rightarrow> None
            | Some (v, rest) \<Rightarrow> Some (c # v, rest))"
proof -
  consider "c = 0x26" | "c = 0x3C" | "c = 0x3E" | "c = 0x22"
    | "c = 0x0D" | "c = 0x0A" | "c = 0x09"
    | "c \<noteq> 0x26" "c \<noteq> 0x3C" "c \<noteq> 0x3E" "c \<noteq> 0x22" "c \<noteq> 0x0D" "c \<noteq> 0x0A" "c \<noteq> 0x09"
    by blast
  then show ?thesis
  proof cases
    case 1
    then show ?thesis
      using decode_ref_amp
      by (simp add: escape_char_def is_xml_char_def name_chars ustr_def split: option.splits)
  next
    case 2
    then show ?thesis
      using decode_ref_lt
      by (simp add: escape_char_def is_xml_char_def name_chars ustr_def split: option.splits)
  next
    case 3
    then show ?thesis
      using decode_ref_gt
      by (simp add: escape_char_def is_xml_char_def name_chars ustr_def split: option.splits)
  next
    case 4
    then show ?thesis
      using decode_ref_quot
      by (simp add: escape_char_def is_xml_char_def name_chars ustr_def split: option.splits)
  next
    case 5
    then show ?thesis
      using decode_ref_13
      by (simp add: escape_char_def is_xml_char_def name_chars ustr_def split: option.splits)
  next
    case 6
    then show ?thesis
      using decode_ref_10
      by (simp add: escape_char_def is_xml_char_def name_chars ustr_def split: option.splits)
  next
    case 7
    then show ?thesis
      using decode_ref_09
      by (simp add: escape_char_def is_xml_char_def name_chars ustr_def split: option.splits)
  next
    case 8
    then have "is_space c \<Longrightarrow> c = 0x20"
      by (auto simp: is_space_def)
    with 8 assms show ?thesis
      by (auto simp: escape_char_def split: option.splits)
  qed
qed

lemma att_value_escape_attrib:
  assumes "list_all is_xml_char v"
  shows "att_value 0x22 None (escape_attrib_u v @ 0x22 # rest) = Some (v, rest)"
  using assms
  by (induction v) (simp_all add: escape_attrib_u_Nil escape_attrib_u_Cons att_value_escape_char)

lemma attributes_stop:
  "attributes (Suc n) (0x3E # rest) = Some ([], 0x3E # rest)"
  by (simp add: is_space_def)

lemma attributes_ID:
  assumes "list_all is_xml_char v"
  shows "attributes (Suc (Suc n))
           (ustr '' ID='' @ [0x22] @ escape_attrib_u v @ [0x22] @ 0x3E # rest)
         = Some ([(ustr ''ID'', v)], 0x3E # rest)"
  by (simp add: parse_name_def name_chars ustr_def att_value_escape_attrib [OF assms])

lemma attributes_USERID:
  assumes "list_all is_xml_char v"
  shows "attributes (Suc (Suc n))
           (ustr '' USERID='' @ [0x22] @ escape_attrib_u v @ [0x22] @ 0x3E # rest)
         = Some ([(ustr ''USERID'', v)], 0x3E # rest)"
  by (simp add: parse_name_def name_chars ustr_def att_value_escape_attrib [OF assms])

lemma take2_track_id_text: "take 2 (track_id_text t @ r) = ustr ''<T''"
  by (simp add: track_id_text_def ustr_def)

lemma read_element_track_id:
  assumes "list_all is_xml_char t"
  shows "read_element (Suc (Suc n)) (track_id_text t @ rest)
         = Some (StartEnd (ustr ''TrackID'') [(ustr ''ID'', t)] [], rest)"
  using attributes_ID [OF assms]
  by (simp add: track_id_text_def parse_name_def name_chars ustr_def del: attributes.simps)

lemma read_content_track_ids:
  assumes "list_all (list_all is_xml_char) tns" and "length tns + 2 < f"
  shows "read_content f (concat (map track_id_text tns) @ 0x3C # 0x2F # rest)
         = Some (map (\<lambda>t. StartEnd (ustr ''TrackID'') [(ustr ''ID'', t)] []) tns, rest)"
  using assms
proof (induction tns arbitrary: f)
  case Nil
  then obtain m where "f = Suc m" by (cases f) auto
  then show ?case by (simp add: ustr_def)
next
  case (Cons t ts)
  from Cons.prems(2) obtain k where f: "f = Suc (Suc (Suc k))"
    by (cases f; cases "f - 1"; cases "f - 2") auto
  with Cons.prems(2) have fuel: "length ts + 2 < Suc (Suc k)" by simp
  from Cons.prems(1) have t: "list_all is_xml_char t" and ts: "list_all (list_all is_xml_char) ts"
    by simp_all
  let ?X = "concat (map track_id_text ts) @ 0x3C # 0x2F # rest"
  have step: "read_content (Suc (Suc (Suc k))) (track_id_text t @ ?X)
        = (case read_element (Suc (Suc k)) (track_id_text t @ ?X) of
             None \<Rightarrow> None
           | Some (e, s1) \<Rightarrow>
               (case read_content (Suc (Suc k)) s1 of
                  None \<Rightarrow> None
                | Some (es, s2) \<Rightarrow> Some (e # es, s2)))"
    by (subst read_content.simps)
       (simp add: take2_track_id_text ustr_def
          del: take_append read_content.simps read_element.simps)
  have shape: "concat (map track_id_text (t # ts)) @ 0x3C # 0x2F # rest
              = track_id_text t @ ?X"
    by simp
  show ?case
    unfolding f shape
    by (simp only: step read_element_track_id [OF t] Cons.IH [OF ts fuel]
          option.case prod.case list.map)
qed

lemma read_element_track_request:
  assumes "list_all is_xml_char uid" and "list_all (list_all is_xml_char) tns"
    and "length tns + 3 < f"
  shows "read_element f (track_request_text uid tns @ rest)
         = Some (track_request_tree uid tns, rest)"
proof -
  from assms(3) obtain m where f: "f = Suc m" and fuel: "length tns + 2 < m"
    by (cases f) auto
  show ?thesis
    unfolding f
    using attributes_USERID [OF assms(1)] read_content_track_ids [OF assms(2) fuel]
    by (simp add: track_request_text_def track_request_tree_def parse_name_def name_chars
          ustr_def del: attributes.simps)
qed

lemma xml_decl_declaration:
  "xml_decl (xml_declaration @ rest) = Some (ustr ''UTF-8'', rest)"
  by (simp add: xml_decl_def xml_declaration_def parse_name_def name_chars is_xml_char_def
        ustr_def)

lemma escape_char_chars: "is_xml_char c \<Longrightarrow> list_all is_xml_char (escape_char c)"
  by (auto simp: escape_char_def is_xml_char_def ustr_def)

lemma escape_attrib_chars:
  "list_all is_xml_char v \<Longrightarrow> list_all is_xml_char (escape_attrib_u v)"
  by (induction v) (simp_all add: escape_attrib_u_Nil escape_attrib_u_Cons escape_char_chars)

lemma track_id_text_chars:
  "list_all is_xml_char t \<Longrightarrow> list_all is_xml_char (track_id_text t)"
  by (simp add: track_id_text_def escape_attrib_chars ustr_def) (simp add: is_xml_char_def)

lemma track_ids_chars:
  "list_all (list_all is_xml_char) tns \<Longrightarrow> list_all is_xml_char (concat (map track_id_text tns))"
  by (induction tns) (simp_all add: track_id_text_chars)

lemma track_request_text_chars:
  assumes "list_all is_xml_char uid" and "list_all (list_all is_xml_char) tns"
  shows "list_all is_xml_char (track_request_text uid tns)"
  using assms
  by (simp add: track_request_text_def escape_attrib_chars track_ids_chars ustr_def)
     (simp add: is_xml_char_def)

lemma xml_declaration_chars: "list_all is_xml_char xml_declaration"
  by (simp add: xml_declaration_def is_xml_char_def ustr_def)

lemma document_chars:
  assumes "list_all is_xml_char uid" and "list_all (list_all is_xml_char) tns"
  shows "list_all is_xml_char (xml_declaration @ [0x0A] @ track_request_text uid tns)"
  by (simp add: xml_declaration_chars track_request_text_chars [OF assms])
     (simp add: is_xml_char_def)

lemma track_ids_length: "length tns \<le> length (concat (map track_id_text tns))"
  by (induction tns) (simp_all add: track_id_text_def ustr_def)

lemma track_request_text_length: "length tns + 3 < length (track_request_text uid tns)"
  using track_ids_length [of tns] by (simp add: track_request_text_def ustr_def)

lemma track_request_text_no_space:
  "dropWhile is_space (track_request_text uid tns) = track_request_text uid tns"
  by (simp add: track_request_text_def is_space_def ustr_def)

lemma document_track_request:
  assumes "list_all is_xml_char uid" and "list_all (list_all is_xml_char) tns"
  shows "document (xml_declaration @ [0x0A] @ track_request_text uid tns)
         = Some (ustr ''UTF-8'', track_request_tree uid tns)"
proof -
  let ?doc = "xml_declaration @ [0x0A] @ track_request_text uid tns"
  note chars = document_chars [OF assms]
  have decl: "xml_decl ?doc = Some (ustr ''UTF-8'', [0x0A] @ track_request_text uid tns)"
    by (rule xml_decl_declaration)
  have skip: "dropWhile is_space ([0x0A] @ track_request_text uid tns)
              = track_request_text uid tns"
    by (simp add: track_request_text_no_space) (simp add: is_space_def)
  have fuel: "length tns + 3 < length ?doc"
    using track_request_text_length [of tns uid] by simp
  have root: "read_element (length ?doc) (track_request_text uid tns)
              = Some (track_request_tree uid tns, [])"
    using read_element_track_request [OF assms fuel, of "[]"] by simp
  show ?thesis
    unfolding document_def
    by (simp only: chars decl skip root option.case prod.case dropWhile.simps
          not_True_eq_False if_False if_True simp_thms)
qed

text \<open>
  C3 (as amended). When the user identifier and the tracking numbers consist of characters
  of XML 1.0 (tab, line feed, carriage return, and the code points U+0020 to U+D7FF,
  U+E000 to U+FFFD and U+10000 to U+10FFFF), \<^verbatim>\<open>_build_xml\<close> returns a well-formed
  document: the UTF-8 declaration, a newline, and one root element TrackRequest whose
  USERID attribute reads back as the user identifier, with exactly one TrackID child per
  input string, in input order, whose ID attribute reads back as that string, every
  element written as a start-tag and end-tag pair. This includes the empty list.
\<close>

theorem build_xml_well_formed:
  assumes "list_all is_xml_char user_id"
    and "list_all (list_all is_xml_char) tracking_numbers"
  shows "\<exists>doc. build_xml_u user_id (Some tracking_numbers) = Inr doc
           \<and> doc = xml_declaration @ [0x0A] @ track_request_text user_id tracking_numbers
           \<and> document doc =
               Some (ustr ''UTF-8'',
                     StartEnd (ustr ''TrackRequest'') [(ustr ''USERID'', user_id)]
                       (map (\<lambda>t. StartEnd (ustr ''TrackID'') [(ustr ''ID'', t)] [])
                          tracking_numbers))"
  using document_track_request [OF assms]
    build_xml_u_text [OF xml_chars_encodable [OF document_chars [OF assms]]]
  by (simp add: track_request_tree_def)

lemma sample_text:
  "xml_declaration @ [0x0A] @ track_request_text sample_user_id sample_tracking_numbers
   = sample_document_u"
  by (simp add: xml_declaration_def track_request_text_def track_id_text_def
        escape_attrib_u_concat escape_char_def sample_document_u_def sample_user_id_def
        sample_tracking_numbers_def ustr_def)

text \<open>
  The theorem at the user identifier 123USERID and two tracking numbers, the second with
  a character that is escaped and with code points of two, three and four UTF-8 bytes.
\<close>

theorem build_xml_well_formed_witness:
  "build_xml_u sample_user_id (Some sample_tracking_numbers) = Inr sample_document_u
   \<and> document sample_document_u =
       Some (ustr ''UTF-8'',
             StartEnd (ustr ''TrackRequest'') [(ustr ''USERID'', ustr ''123USERID'')]
               [StartEnd (ustr ''TrackID'') [(ustr ''ID'', ustr ''9400111202555842761005'')] [],
                StartEnd (ustr ''TrackID'') [(ustr ''ID'', [0x61, 0x3C, 0xE9, 0x20AC, 0x1F600])] []])"
proof -
  have uid: "list_all is_xml_char sample_user_id"
    by (simp add: sample_user_id_def is_xml_char_def ustr_def)
  have tns: "list_all (list_all is_xml_char) sample_tracking_numbers"
    by (simp add: sample_tracking_numbers_def is_xml_char_def ustr_def)
  from build_xml_well_formed [OF uid tns] show ?thesis
    by (simp add: sample_text [unfolded append.simps])
       (simp add: sample_user_id_def sample_tracking_numbers_def)
qed

lemma control_text:
  "xml_declaration @ [0x0A] @ track_request_text [0x01] [] = control_document"
  by (simp add: xml_declaration_def track_request_text_def escape_attrib_u_concat
        escape_char_def control_document_def ustr_def)

text \<open>
  C3 as stated fails: \<^verbatim>\<open>_escape_attrib\<close> leaves control characters as they are, so a user
  identifier holding the code point 1 gives a text with a character outside the \<^verbatim>\<open>Char\<close>
  production of XML 1.0, which no XML reader accepts.
\<close>

theorem build_xml_control_character:
  "build_xml_u [0x01] (Some []) = Inr control_document
   \<and> \<not> list_all is_xml_char control_document
   \<and> document control_document = None"
proof -
  have "list_all encodable control_document"
    by (simp add: control_document_def encodable_def ustr_def)
  then have "build_xml_u [0x01] (Some []) = Inr control_document"
    using build_xml_u_text [of "[0x01]" "[]"] by (simp only: control_text)
  moreover have "\<not> list_all is_xml_char control_document"
    by (simp add: control_document_def is_xml_char_def ustr_def)
  ultimately show ?thesis
    by (simp add: document_def)
qed

text \<open>
  The other strings outside the production fail in the same way, so the condition is the
  production itself and not a lower bound alone: U+FFFF is written as it is, and a lone
  surrogate, which UTF-8 cannot encode, is written as a reference to a character that is
  not a \<^verbatim>\<open>Char\<close>.
\<close>

lemma noncharacter_text:
  "xml_declaration @ [0x0A] @ track_request_text [0xFFFF] [] = noncharacter_document"
  by (simp add: xml_declaration_def track_request_text_def escape_attrib_u_concat
        escape_char_def noncharacter_document_def ustr_def)

lemma build_xml_noncharacter:
  "build_xml_u [0xFFFF] (Some []) = Inr noncharacter_document
   \<and> document noncharacter_document = None"
proof -
  have "list_all encodable noncharacter_document"
    by (simp add: noncharacter_document_def encodable_def ustr_def)
  then have "build_xml_u [0xFFFF] (Some []) = Inr noncharacter_document"
    using build_xml_u_text [of "[0xFFFF]" "[]"] by (simp only: noncharacter_text)
  moreover have "\<not> list_all is_xml_char noncharacter_document"
    by (simp add: noncharacter_document_def is_xml_char_def ustr_def)
  ultimately show ?thesis
    by (simp add: document_def)
qed

lemma digits_of_step:
  "0 < k \<Longrightarrow> digits_of k n =
     (if n < 10 then [char_of (48 + n)]
      else digits_of (k - 1) (n div 10) @ [char_of (48 + n mod 10)])"
  by (cases k) simp_all

lemma surrogate_reference: "utf8_encode_cp 0xD800 = ustr ''&#55296;''"
  by (simp add: utf8_encode_cp_def str_nat_def digits_of_step ustr_def del: digits_of.simps)

lemma surrogate_text:
  "xml_declaration @ [0x0A] @ track_request_text [0xD800] []
   = (xml_declaration @ [0x0A] @ ustr ''<TrackRequest USERID='' @ [0x22]) @ [0xD800]
     @ ([0x22] @ ustr ''></TrackRequest>'')"
  by (simp add: track_request_text_def escape_attrib_u_concat escape_char_def ustr_def)

lemma surrogate_written:
  "utf8_encode_u (xml_declaration @ [0x0A] @ track_request_text [0xD800] [])
   = utf8_encode_u surrogate_document"
  unfolding surrogate_text
  by (simp add: utf8_encode_u_def surrogate_reference surrogate_document_def
        xml_declaration_def)
     (simp add: utf8_encode_cp_def ustr_def)

lemma build_xml_surrogate:
  "build_xml_u [0xD800] (Some []) = Inr surrogate_document
   \<and> document surrogate_document = None"
proof -
  have "list_all encodable surrogate_document"
    by (simp add: surrogate_document_def encodable_def ustr_def)
  then have "utf8_decode_u (utf8_encode_u surrogate_document) = Some surrogate_document"
    by (rule utf8_roundtrip_u)
  then have "build_xml_u [0xD800] (Some []) = Inr surrogate_document"
    by (intro build_xml_u_decoded) (simp only: surrogate_written)
  moreover have "document surrogate_document = None"
    by (simp add: document_def surrogate_document_def xml_decl_def parse_name_def name_chars
          is_xml_char_def decode_ref_def digit_val_def char_ref_def ustr_def)
  ultimately show ?thesis by simp
qed

section \<open>The two models of _build_xml agree\<close>

text \<open>
  On an instance whose strings are below 256, what \<^const>\<open>build_xml\<close> returns is, code
  point for code point, what \<^const>\<open>build_xml_u\<close> returns.
\<close>

lemma of_char_special:
  "(of_char c = (0x26::nat)) = (c = CHR ''&'')"
  "(of_char c = (0x3C::nat)) = (c = CHR ''<'')"
  "(of_char c = (0x3E::nat)) = (c = CHR ''>'')"
  "(of_char c = (0x22::nat)) = (c = CHR 0x22)"
  "(of_char c = (0x0D::nat)) = (c = CHR 0x0D)"
  "(of_char c = (0x0A::nat)) = (c = CHR 0x0A)"
  "(of_char c = (0x09::nat)) = (c = CHR 0x09)"
  using of_char_eq_iff [of c "CHR ''&''", where ?'a = nat]
    of_char_eq_iff [of c "CHR ''<''", where ?'a = nat]
    of_char_eq_iff [of c "CHR ''>''", where ?'a = nat]
    of_char_eq_iff [of c "CHR 0x22", where ?'a = nat]
    of_char_eq_iff [of c "CHR 0x0D", where ?'a = nat]
    of_char_eq_iff [of c "CHR 0x0A", where ?'a = nat]
    of_char_eq_iff [of c "CHR 0x09", where ?'a = nat]
  by simp_all

lemma replace_append: "replace a b (xs @ ys) = replace a b xs @ replace a b ys"
  by (simp add: replace_def)

lemma escape_attrib_append: "escape_attrib (xs @ ys) = escape_attrib xs @ escape_attrib ys"
  by (simp add: escape_attrib_def replace_append)

lemma escape_attrib_one: "map of_char (escape_attrib [c]) = escape_char (of_char c)"
  by (simp add: escape_attrib_def replace_def escape_char_def ustr_def of_char_special)

lemma escape_attrib_agrees: "map of_char (escape_attrib v) = escape_attrib_u (map of_char v)"
proof (induction v)
  case Nil
  then show ?case by (simp add: escape_attrib_def replace_def escape_attrib_u_Nil)
next
  case (Cons c v)
  have "escape_attrib (c # v) = escape_attrib [c] @ escape_attrib v"
    using escape_attrib_append [of "[c]" v] by simp
  then show ?case
    by (simp add: escape_attrib_one escape_attrib_u_Cons Cons.IH)
qed

lemma document_text_agrees:
  "ustr (ElementTree_write (track_request uid tns))
   = xml_declaration @ [0x0A] @ track_request_text (ustr uid) (map ustr tns)"
  by (simp add: ElementTree_write_def track_request_def track_id_def xml_declaration_def
        track_request_text_def track_id_text_def ustr_def map_concat comp_def
        escape_attrib_agrees)

lemma of_char_encodable: "encodable (of_char c)"
proof -
  have "(of_char c :: nat) = of_char c mod 256" by simp
  then have "(of_char c :: nat) < 256"
    by (metis mod_less_divisor zero_less_numeral)
  then show ?thesis unfolding encodable_def by linarith
qed

lemma ustr_encodable: "list_all encodable (ustr s)"
  by (induction s) (simp_all add: ustr_def of_char_encodable)

lemma build_xml_agrees:
  "map_sum id ustr (build_xml self)
   = build_xml_u (ustr (usps_user_id self)) (map_option (map ustr) (usps_tracking_numbers self))"
proof (cases "usps_tracking_numbers self")
  case None
  then show ?thesis
    by (simp add: build_xml_def build_xml_u_def)
next
  case (Some tns)
  have "list_all encodable
          (xml_declaration @ [0x0A] @ track_request_text (ustr (usps_user_id self)) (map ustr tns))"
    using ustr_encodable [of "ElementTree_write (track_request (usps_user_id self) tns)"]
    by (simp only: document_text_agrees)
  from build_xml_u_text [OF this] Some show ?thesis
    by (simp add: build_xml_result [OF Some] document_text_agrees)
qed

section \<open>The requests of the two scenarios\<close>

lemma sample_ups_data_eval:
  "str_dict [(''Locale'', Str ''en_US''), (''Requester'', Str ''wt/trackdetails''),
             (''TrackingNumber'', StrList [''1Z999AA10123456784''])] = sample_ups_data"
  by code_simp

theorem ups_make_request_posts_once_witness:
  "snd (snd (make_request net_ok [''1Z999AA10123456784''] (Ups UpsTracktor_init, [])))
   = [POST ''https://www.ups.com/track/api/Track/GetStatus?loc=en_US'' sample_ups_data
        [(''accept'', ''application/json, text/plain, */*''),
         (''content-type'', ''application/json'')]]"
  using ups_make_request_posts_once
          [where net = net_ok and tracking_numbers = "[''1Z999AA10123456784'']"
             and calls = "[]" and trace = "[]"]
  by (simp add: sample_ups_data_eval)

lemma sample_document_eval:
  "ElementTree_write (track_request ''123USERID'' [''9400111202555842761005'', ''a<b&c''])
   = sample_document"
  by code_simp

theorem usps_make_request_gets_once_witness:
  "build_xml ((UspsTracktor_init ''123USERID'')
      \<lparr>usps_tracking_numbers := Some [''9400111202555842761005'', ''a<b&c'']\<rparr>)
     = Inr sample_document
   \<and> snd (snd (make_request net_ok [''9400111202555842761005'', ''a<b&c'']
                 (Usps (UspsTracktor_init ''123USERID''), [])))
     = [GET ''http://production.shippingapis.com/ShippingAPI.dll''
          [(''API'', ''TrackV2''), (''XML'', sample_document)]]"
  using usps_make_request_gets_once
          [where user_id = "''123USERID''"
             and tracking_numbers = "[''9400111202555842761005'', ''a<b&c'']"
             and net = net_ok and calls = "[]" and trace = "[]"]
  by (simp add: sample_document_eval)

end
